theory Spec2Isabelle
  imports Main "HOL-Library.AList"
begin

section \<open>Python values used by the serializers\<close>

text \<open>
  Opaque JSON payloads (the output of serializers that live outside these two modules,
  the \<open>data\<close> column of a release, health statistics) are values of \<open>json\<close>.
  A Python dict is an association list with the newest binding of a key looked up by
  \<open>map_of\<close>. A datetime is the integer number of microseconds of its instant; a datetime
  object is always truthy.
\<close>

type_synonym timestamp = int

datatype json =
    JNone
  | JBool bool
  | JInt int
  | JStr string
  | JDate timestamp
  | JList "json list"
  | JDict "(string \<times> json) list"

datatype error = TypeError string | KeyError string

fun truthy :: "json \<Rightarrow> bool" where
  "truthy JNone = False"
| "truthy (JBool b) = b"
| "truthy (JInt i) = (i \<noteq> 0)"
| "truthy (JStr s) = (s \<noteq> [])"
| "truthy (JDate t) = True"
| "truthy (JList xs) = (xs \<noteq> [])"
| "truthy (JDict kvs) = (kvs \<noteq> [])"

subsection \<open>\<open>str\<close> of an integer\<close>

definition digit_char :: "nat \<Rightarrow> char" where
  "digit_char d = char_of (48 + d)"

function str_nat :: "nat \<Rightarrow> string" where
  "str_nat n = (if n < 10 then [digit_char n] else str_nat (n div 10) @ [digit_char (n mod 10)])"
  by pat_completeness auto
termination
  by (relation "measure (\<lambda>n. n)") auto

declare str_nat.simps [simp del]

definition str_int :: "int \<Rightarrow> string" where
  "str_int i = (if i < 0 then CHR ''-'' # str_nat (nat (- i)) else str_nat (nat i))"

subsection \<open>\<open>str.lower\<close>\<close>

text \<open>
  A \<open>char\<close> stands for the code point of the same number (U+0000 to U+00FF). On these
  code points \<open>str.lower\<close> maps A-Z, and the Latin-1 capitals U+00C0-U+00DE other than
  the multiplication sign U+00D7, to the code point 32 above, and leaves the rest.
\<close>

definition lower_char :: "char \<Rightarrow> char" where
  "lower_char c =
     (let n = (of_char c :: nat)
      in if (65 \<le> n \<and> n \<le> 90) \<or> (192 \<le> n \<and> n \<le> 214) \<or> (216 \<le> n \<and> n \<le> 222)
         then char_of (n + 32) else c)"

definition lower :: "string \<Rightarrow> string" where
  "lower s = map lower_char s"

text \<open>
  Equality of two strings up to ASCII case, as the specification words it: the strings
  agree once every ASCII capital A-Z is replaced by its small letter.
\<close>

definition ascii_fold_char :: "char \<Rightarrow> char" where
  "ascii_fold_char c =
     (let n = (of_char c :: nat) in if 65 \<le> n \<and> n \<le> 90 then char_of (n + 32) else c)"

definition equal_up_to_ascii_case :: "string \<Rightarrow> string \<Rightarrow> bool" where
  "equal_up_to_ascii_case a b = (map ascii_fold_char a = map ascii_fold_char b)"

section \<open>repository\_project\_path\_config.py\<close>

record project_row =
  project_id_of :: int
  project_slug :: string

record repository_row =
  repository_id :: int
  repository_name :: string

record 'p integration_row =
  integration_id :: int
  integration_provider :: 'p

record 'p organization_integration_row =
  integration :: "'p integration_row"

record 'p repository_project_path_config =
  config_id :: int
  config_project_id :: int
  config_project :: project_row
  config_repository :: repository_row
  organization_integration :: "'p organization_integration_row"
  stack_root :: string
  source_root :: string
  default_branch :: "string option"

definition json_of_str_option :: "string option \<Rightarrow> json" where
  "json_of_str_option s = (case s of None \<Rightarrow> JNone | Some t \<Rightarrow> JStr t)"

text \<open>
  \<open>RepositoryProjectPathConfigSerializer.serialize\<close>. \<open>Integration.get_provider\<close> and
  \<open>serialize_provider\<close> are defined in other modules and are parameters here.
\<close>

definition RepositoryProjectPathConfigSerializer_serialize ::
  "('p integration_row \<Rightarrow> 'q) \<Rightarrow> ('q \<Rightarrow> json) \<Rightarrow> 'p repository_project_path_config
     \<Rightarrow> (string \<times> json) list" where
  "RepositoryProjectPathConfigSerializer_serialize get_provider serialize_provider obj =
     (let integration = integration (organization_integration obj);
          provider = get_provider integration
      in [(''id'', JStr (str_int (config_id obj))),
          (''projectId'', JStr (str_int (config_project_id obj))),
          (''projectSlug'', JStr (project_slug (config_project obj))),
          (''repoId'', JStr (str_int (repository_id (config_repository obj)))),
          (''repoName'', JStr (repository_name (config_repository obj))),
          (''integrationId'', JStr (str_int (integration_id integration))),
          (''provider'', serialize_provider provider),
          (''stackRoot'', JStr (stack_root obj)),
          (''sourceRoot'', JStr (source_root obj)),
          (''defaultBranch'', json_of_str_option (default_branch obj))])"

section \<open>release.py: cache keys\<close>

record commit_author =
  author_id :: int
  author_name :: "string option"
  author_email :: string

text \<open>
  \<open>_user_to_author_cache_key\<close>. \<open>md5_text(s).hexdigest()\<close> comes from
  \<open>sentry.utils.hashlib\<close> and is the parameter \<open>md5_hex\<close>.
\<close>

definition user_to_author_cache_key :: "(string \<Rightarrow> string) \<Rightarrow> int \<Rightarrow> commit_author \<Rightarrow> string" where
  "user_to_author_cache_key md5_hex organization_id author =
     (let author_hash = md5_hex (lower (author_email author))
      in ''get_users_for_authors:'' @ str_int organization_id @ '':'' @ author_hash)"

section \<open>release.py: rows, serialized values and external collaborators\<close>

text \<open>
  Rows of the ORM models the module reads. A nullable column is an \<open>option\<close>.
\<close>

record user_row =
  user_pk :: int
  user_username :: string

record user_email_row =
  ue_id :: int
  ue_user_id :: int
  ue_email :: string

record commit_row =
  commit_id :: int
  commit_key :: string

record deploy_row =
  deploy_id :: int
  deploy_name :: string

record environment_row =
  environment_id :: int
  environment_name :: string

record tag_value =
  tv_key :: string
  tv_value :: string
  tv_times_seen :: int
  tv_first_seen :: timestamp
  tv_last_seen :: timestamp

text \<open>
  A \<open>ReleaseProjectEnvironment\<close> row with its release selected along
  (\<open>release_project_env.release.version\<close>).
\<close>

record release_project_environment =
  rpe_release_id :: int
  rpe_release_version :: string
  rpe_project_id :: int
  rpe_first_seen :: timestamp
  rpe_last_seen :: timestamp

text \<open>A row of \<open>ReleaseProject.objects.filter(...).values(...)\<close> (lines 326-334).\<close>

record project_release =
  pr_new_groups :: "int option"
  pr_release_id :: int
  pr_release_version :: string
  pr_project_slug :: string
  pr_project_name :: string
  pr_project_id :: int
  pr_project_platform :: "string option"

text \<open>
  One entry of the health overview: the keys \<open>expose_health_data\<close> reads are always
  there, \<open>stats\<close> may be missing.
\<close>

record health_data =
  hd_duration_p50 :: json
  hd_duration_p90 :: json
  hd_crash_free_users :: json
  hd_crash_free_sessions :: json
  hd_sessions_crashed :: json
  hd_sessions_errored :: json
  hd_total_users :: json
  hd_total_users_24h :: json
  hd_total_sessions :: json
  hd_total_sessions_24h :: json
  hd_adoption :: json
  hd_stats :: "json option"
  hd_has_health_data :: bool

text \<open>
  A serialized user is the dict the user serializer returns: it always has the keys
  \<open>id\<close> (the primary key as a string) and \<open>email\<close>, so it is never empty and always
  truthy. The value stored for an author is such a dict or the dict
  \<open>{"name": author.name, "email": author.email}\<close>.
\<close>

record serialized_user =
  su_id :: string
  su_email :: string
  su_rest :: "(string \<times> json) list"

datatype author_user =
    SentryUser serialized_user
  | AuthorDict "string option" string

fun dict_email :: "author_user \<Rightarrow> string" where
  "dict_email (SentryUser u) = su_email u"
| "dict_email (AuthorDict name email) = email"

text \<open>
  \<open>Release.version_info\<close>: \<open>None\<close>, or a dict with the keys \<open>package\<close>, \<open>version_raw\<close>,
  \<open>version_parsed\<close>, \<open>description\<close> and \<open>build_hash\<close>, where \<open>version_parsed\<close> is \<open>None\<close> or
  a dict of the six parsed components.
\<close>

record version_parsed =
  vp_major :: json
  vp_minor :: json
  vp_patch :: json
  vp_pre :: json
  vp_build_code :: json
  vp_components :: json

record version_info_dict =
  vi_package :: json
  vi_version_raw :: json
  vi_version_parsed :: "version_parsed option"
  vi_description :: json
  vi_build_hash :: json

text \<open>
  A release object. Columns that the serializer only passes on are \<open>json\<close> values
  (\<open>JNone\<close> for a null). Each field carries the prefix \<open>rel_\<close>. \<open>owner\<close> is the related
  user row, read only when \<open>owner_id\<close> is set; \<open>authors\<close> holds commit-author ids as
  strings.

  Release objects are keys of the dicts that \<open>get_attrs\<close> and its helpers return. The
  \<open>Release\<close> model, which is outside these two modules, compares releases by primary key
  and \<open>_for_project_id\<close>; \<open>release_key\<close> is that key.
\<close>

record release =
  rel_id :: int
  rel_organization_id :: int
  rel_version :: string
  rel_status :: json
  rel_version_info :: "version_info_dict option"
  rel_ref :: json
  rel_url :: json
  rel_date_released :: json
  rel_date_added :: json
  rel_data :: json
  rel_commit_count :: json
  rel_total_deploys :: json
  rel_owner_id :: "int option"
  rel_owner :: user_row
  rel_authors :: "string list"
  rel_last_commit_id :: "int option"
  rel_last_deploy_id :: "int option"
  rel_for_project_id :: "int option"

type_synonym release_key = "int \<times> int option"

definition release_key :: "release \<Rightarrow> release_key" where
  "release_key item = (rel_id item, rel_for_project_id item)"

text \<open>Truthiness of a nullable integer id: set and not zero.\<close>

definition truthy_id :: "int option \<Rightarrow> bool" where
  "truthy_id x = (case x of None \<Rightarrow> False | Some i \<Rightarrow> i \<noteq> 0)"

definition truthy_ids :: "int option list \<Rightarrow> int set" where
  "truthy_ids xs = set (concat (map (\<lambda>x. case x of None \<Rightarrow> [] | Some i \<Rightarrow> if i \<noteq> 0 then [i] else []) xs))"

type_synonym viewer = "user_row option"

text \<open>
  The calls that leave the module, with their arguments. Every function below returns,
  next to its value, the calls it made in the order it made them.
\<close>

datatype call =
    CacheGetMany "string list"
  | CacheSetMany "(string \<times> author_user) list"
  | UserEmailQuery "string list"
  | UserQuery "int set" int
  | SerializeUsers "user_row list" viewer
  | MetricsIncr string nat
  | CommitAuthorQuery "string set"
  | CommitQuery "int set"
  | SerializeCommits "commit_row list" viewer
  | DeployQuery "int set"
  | SerializeDeploys "deploy_row list" viewer
  | ReleaseProjectIdsQuery "int list"
  | GetReleaseTags "int list" "string list"
  | NewGroupsOfProjectQuery int "int list"
  | NewGroupsNotNullQuery "int list"
  | ReleaseProjectEnvQuery "int list" "string list" "int option"
  | NewIssuesCountQuery "int list" "string list" "int option"
  | ProjectReleaseQuery "int list"
  | ProjectPlatformQuery "int set"
  | HealthDataOverview "(int \<times> string) list" json json "string list option" json
  | CheckHasHealthData "(int \<times> string) list"

text \<open>
  The collaborators, as the answers they give: the cache, the ORM queries, the tag store,
  the health-data backend, the serializers of other models, the MD5 helper. A query that
  filters on \<open>release__in=item_list\<close> receives the primary keys of the items, one that
  filters on a project its id.
\<close>

record collaborators =
  md5_hex :: "string \<Rightarrow> string"
  cache_get_many :: "string list \<Rightarrow> (string \<times> author_user) list"
  user_email_in_iexact :: "string list \<Rightarrow> user_email_row list"
  active_org_users :: "int set \<Rightarrow> int \<Rightarrow> user_row list"
  serialize_users :: "user_row list \<Rightarrow> viewer \<Rightarrow> serialized_user list"
  commit_authors_in :: "string set \<Rightarrow> commit_author list"
  commits_in :: "int set \<Rightarrow> commit_row list"
  serialize_commits :: "commit_row list \<Rightarrow> viewer \<Rightarrow> json list"
  deploys_in :: "int set \<Rightarrow> deploy_row list"
  serialize_deploys :: "deploy_row list \<Rightarrow> viewer \<Rightarrow> json list"
  release_project_ids :: "int list \<Rightarrow> int list"
  get_release_tags :: "int list \<Rightarrow> string list \<Rightarrow> tag_value list"
  new_groups_of_project :: "int \<Rightarrow> int list \<Rightarrow> (int \<times> int option) list"
  new_groups_not_null :: "int list \<Rightarrow> (int \<times> int \<times> int) list"
  release_project_envs :: "int list \<Rightarrow> string list \<Rightarrow> int option \<Rightarrow> release_project_environment list"
  new_issues_counts :: "int list \<Rightarrow> string list \<Rightarrow> int option \<Rightarrow> (int \<times> int \<times> int option) list"
  project_releases_of :: "int list \<Rightarrow> project_release list"
  project_platforms :: "int set \<Rightarrow> (int \<times> string) list"
  get_release_health_data_overview ::
    "(int \<times> string) list \<Rightarrow> json \<Rightarrow> json \<Rightarrow> string list option \<Rightarrow> json
       \<Rightarrow> ((int \<times> string) \<times> health_data) list"
  check_has_health_data :: "(int \<times> string) list \<Rightarrow> (int \<times> string) set"

section \<open>release.py: \<open>get_users_for_authors\<close>\<close>

text \<open>
  The first loop (lines 75-80): an author whose key the cache answered goes to
  \<open>results\<close>, the others to \<open>missed\<close>.
\<close>

definition split_fetched ::
  "collaborators \<Rightarrow> int \<Rightarrow> (string \<times> author_user) list \<Rightarrow> commit_author
     \<Rightarrow> commit_author list \<times> (string \<times> author_user) list
     \<Rightarrow> commit_author list \<times> (string \<times> author_user) list" where
  "split_fetched ext organization_id fetched author acc =
     (case acc of (missed, results) \<Rightarrow>
        (case map_of fetched (user_to_author_cache_key (md5_hex ext) organization_id author) of
           None \<Rightarrow> (missed @ [author], results)
         | Some fetched_user \<Rightarrow>
             (missed, AList.update (str_int (author_id author)) fetched_user results)))"

text \<open>\<open>users_by_id = {user["id"]: user for user in users}\<close> (line 98).\<close>

definition users_by_id_of :: "serialized_user list \<Rightarrow> (string \<times> serialized_user) list" where
  "users_by_id_of users = fold (\<lambda>u d. AList.update (su_id u) u d) users []"

text \<open>
  The loop over \<open>user_emails\<close> (lines 101-109): the first row of a lowercased address
  whose user is among the serialized users wins.
\<close>

definition match_email ::
  "(string \<times> serialized_user) list \<Rightarrow> user_email_row
     \<Rightarrow> (string \<times> serialized_user) list \<Rightarrow> (string \<times> serialized_user) list" where
  "match_email users_by_id email users_by_email =
     (let lower_email = lower (ue_email email)
      in if lower_email \<notin> fst ` set users_by_email
         then (case map_of users_by_id (str_int (ue_user_id email)) of
                 None \<Rightarrow> users_by_email
               | Some u \<Rightarrow> AList.update lower_email u users_by_email)
         else users_by_email)"

definition users_by_email_of ::
  "(string \<times> serialized_user) list \<Rightarrow> user_email_row list \<Rightarrow> (string \<times> serialized_user) list" where
  "users_by_email_of users_by_id user_emails = fold (match_email users_by_id) user_emails []"

text \<open>The loop over \<open>missed\<close> (lines 111-115).\<close>

definition resolve_missed ::
  "collaborators \<Rightarrow> int \<Rightarrow> (string \<times> serialized_user) list \<Rightarrow> commit_author
     \<Rightarrow> (string \<times> author_user) list \<times> (string \<times> author_user) list
     \<Rightarrow> (string \<times> author_user) list \<times> (string \<times> author_user) list" where
  "resolve_missed ext organization_id users_by_email author acc =
     (case acc of (results, to_cache) \<Rightarrow>
        (let v = (case map_of users_by_email (lower (author_email author)) of
                    Some u \<Rightarrow> SentryUser u
                  | None \<Rightarrow> AuthorDict (author_name author) (author_email author));
             results' = AList.update (str_int (author_id author)) v results
         in (results',
             AList.update (user_to_author_cache_key (md5_hex ext) organization_id author) v to_cache)))"

definition get_users_for_authors ::
  "collaborators \<Rightarrow> int \<Rightarrow> commit_author list \<Rightarrow> viewer
     \<Rightarrow> (string \<times> author_user) list \<times> call list" where
  "get_users_for_authors ext organization_id authors user =
     (let keys = map (user_to_author_cache_key (md5_hex ext) organization_id) authors;
          fetched = cache_get_many ext keys;
          log1 = [CacheGetMany keys];
          (missed, results) =
            (if fetched \<noteq> []
             then fold (split_fetched ext organization_id fetched) authors ([], [])
             else (authors, []));
          (results, log2) =
            (if missed \<noteq> []
             then
               (let emails = map author_email missed;
                    user_emails = user_email_in_iexact ext emails;
                    ids = ue_user_id ` set user_emails;
                    users = active_org_users ext ids organization_id;
                    serialized = serialize_users ext users user;
                    users_by_id = users_by_id_of serialized;
                    users_by_email = users_by_email_of users_by_id user_emails;
                    (results, to_cache) =
                      fold (resolve_missed ext organization_id users_by_email) missed (results, [])
                in (results,
                    [UserEmailQuery emails, UserQuery ids organization_id,
                     SerializeUsers users user, CacheSetMany to_cache]))
             else (results, []))
      in (results,
          log1 @ log2 @
          [MetricsIncr ''sentry.release.get_users_for_authors.missed'' (length missed),
           MetricsIncr ''sentry.tasks.process_suspect_commits.total'' (length results)]))"

section \<open>release.py: \<open>ReleaseSerializer._get_commit_metadata\<close> and \<open>_get_deploy_metadata\<close>\<close>

record commit_metadata =
  cm_authors :: "author_user list"
  cm_last_commit :: "json option"

record deploy_metadata =
  dm_last_deploy :: "json option"

text \<open>
  The inner loop (lines 168-173): the users of an item's authors, one per email. An
  author's user is a non-empty dict, hence truthy, whenever the lookup finds one.
\<close>

definition add_item_author ::
  "(string \<times> author_user) list \<Rightarrow> string \<Rightarrow> author_user list \<times> string set
     \<Rightarrow> author_user list \<times> string set" where
  "add_item_author users_by_author a acc =
     (case acc of (item_authors, seen_authors) \<Rightarrow>
        (case map_of users_by_author a of
           None \<Rightarrow> (item_authors, seen_authors)
         | Some u \<Rightarrow>
             if dict_email u \<notin> seen_authors
             then (item_authors @ [u], insert (dict_email u) seen_authors)
             else (item_authors, seen_authors)))"

definition item_authors_of :: "(string \<times> author_user) list \<Rightarrow> release \<Rightarrow> author_user list" where
  "item_authors_of users_by_author item =
     fst (fold (add_item_author users_by_author) (rel_authors item) ([], {}))"

text \<open>\<open>d.get(k)\<close> for a key \<open>k\<close> that may be \<open>None\<close>; no dict here has the key \<open>None\<close>.\<close>

definition dict_get_opt :: "('k \<times> 'v) list \<Rightarrow> 'k option \<Rightarrow> 'v option" where
  "dict_get_opt d k = (case k of None \<Rightarrow> None | Some i \<Rightarrow> map_of d i)"

text \<open>A dict comprehension \<open>{k: v for k, v in pairs}\<close>: a later pair replaces an earlier one.\<close>

definition dict_of_pairs :: "('k \<times> 'v) list \<Rightarrow> ('k \<times> 'v) list" where
  "dict_of_pairs kvs = fold (\<lambda>kv d. AList.update (fst kv) (snd kv) d) kvs []"

text \<open>
  \<open>_get_commit_metadata\<close>. \<open>org_ids\<close> is the set of the items' organization ids, here the
  list of them without repetition: it has one element exactly when \<open>len(org_ids) == 1\<close>,
  and that element is what \<open>org_ids.pop()\<close> returns.
\<close>

definition get_commit_metadata ::
  "collaborators \<Rightarrow> release list \<Rightarrow> viewer \<Rightarrow> (release_key \<times> commit_metadata) list \<times> call list" where
  "get_commit_metadata ext item_list user =
     (let author_ids = (\<Union>obj\<in>set item_list. set (rel_authors obj));
          (author_list, log1) =
            (if author_ids \<noteq> {}
             then (commit_authors_in ext author_ids, [CommitAuthorQuery author_ids])
             else ([], []));
          (users_by_author, log2) =
            (if author_list \<noteq> []
             then (case remdups (map rel_organization_id item_list) of
                     [org_id] \<Rightarrow> get_users_for_authors ext org_id author_list user
                   | _ \<Rightarrow> ([], []))
             else ([], []));
          commit_ids = truthy_ids (map rel_last_commit_id item_list);
          (commits, log3) =
            (if commit_ids \<noteq> {}
             then (let commit_list = commits_in ext commit_ids
                   in (dict_of_pairs (zip (map commit_id commit_list)
                                          (serialize_commits ext commit_list user)),
                       [CommitQuery commit_ids, SerializeCommits commit_list user]))
             else ([], []));
          result =
            fold (\<lambda>item r. AList.update (release_key item)
                    \<lparr>cm_authors = item_authors_of users_by_author item,
                     cm_last_commit = dict_get_opt commits (rel_last_commit_id item)\<rparr> r)
                 item_list []
      in (result, log1 @ log2 @ log3))"

definition get_deploy_metadata ::
  "collaborators \<Rightarrow> release list \<Rightarrow> viewer \<Rightarrow> (release_key \<times> deploy_metadata) list \<times> call list" where
  "get_deploy_metadata ext item_list user =
     (let deploy_ids = truthy_ids (map rel_last_deploy_id item_list);
          (deploys, log1) =
            (if deploy_ids \<noteq> {}
             then (let deploy_list = deploys_in ext deploy_ids
                   in (dict_of_pairs (zip (map deploy_id deploy_list)
                                          (serialize_deploys ext deploy_list user)),
                       [DeployQuery deploy_ids, SerializeDeploys deploy_list user]))
             else ([], []));
          result =
            fold (\<lambda>item r. AList.update (release_key item)
                    \<lparr>dm_last_deploy = dict_get_opt deploys (rel_last_deploy_id item)\<rparr> r)
                 item_list []
      in (result, log1))"

section \<open>release.py: first and last sightings, issue counts\<close>

type_synonym seen_dict = "(string \<times> timestamp) list"

type_synonym counts_dict = "(int \<times> (int \<times> int option) list) list"

text \<open>
  \<open>__get_project_id_list\<close>. \<open>project_ids\<close> is a set in the source; \<open>sorted(project_ids)\<close>
  is the sorted list of its distinct elements.
\<close>

definition get_project_id_list ::
  "collaborators \<Rightarrow> release list \<Rightarrow> (int list \<times> bool) \<times> call list" where
  "get_project_id_list ext item_list =
     (let project_ids =
            concat (map (\<lambda>release. case rel_for_project_id release of
                                       None \<Rightarrow> [] | Some p \<Rightarrow> [p]) item_list);
          need_fallback = list_ex (\<lambda>release. rel_for_project_id release = None) item_list
      in if \<not> need_fallback then ((sort (remdups project_ids), True), [])
         else ((release_project_ids ext (map rel_id item_list), False),
               [ReleaseProjectIdsQuery (map rel_id item_list)]))"

text \<open>
  The loop over the tag values (lines 241-245). \<open>first_val\<close> and \<open>last_val\<close> are \<open>None\<close> or
  a datetime, and a datetime is truthy.
\<close>

definition note_tag_value :: "tag_value \<Rightarrow> seen_dict \<times> seen_dict \<Rightarrow> seen_dict \<times> seen_dict" where
  "note_tag_value tv acc =
     (case acc of (first_seen, last_seen) \<Rightarrow>
        (let first_val = map_of first_seen (tv_value tv);
             last_val = map_of last_seen (tv_value tv)
         in (AList.update (tv_value tv)
               (case first_val of Some f \<Rightarrow> min (tv_first_seen tv) f | None \<Rightarrow> tv_first_seen tv)
               first_seen,
             AList.update (tv_value tv)
               (case last_val of Some l \<Rightarrow> max (tv_last_seen tv) l | None \<Rightarrow> tv_last_seen tv)
               last_seen)))"

text \<open>\<open>group_counts_by_release.setdefault(release_id, {})[project_id] = new_groups\<close>.\<close>

definition set_project_count :: "int \<Rightarrow> int \<Rightarrow> int option \<Rightarrow> counts_dict \<Rightarrow> counts_dict" where
  "set_project_count release_id project_id new_groups g =
     (case map_of g release_id of
        None \<Rightarrow> AList.update release_id [(project_id, new_groups)] g
      | Some d \<Rightarrow> AList.update release_id (AList.update project_id new_groups d) g)"

definition get_release_data_no_environment ::
  "collaborators \<Rightarrow> project_row option \<Rightarrow> release list
     \<Rightarrow> (seen_dict \<times> seen_dict \<times> counts_dict) \<times> call list" where
  "get_release_data_no_environment ext project item_list =
     (let ((project_ids, specialized), log1) =
            (case project of
               Some p \<Rightarrow> (([project_id_of p], True), [])
             | None \<Rightarrow> get_project_id_list ext item_list);
          versions = map rel_version item_list;
          tag_values = get_release_tags ext project_ids versions;
          (first_seen, last_seen) = fold note_tag_value tag_values ([], []);
          (group_counts_by_release, log3) =
            (case project of
               Some p \<Rightarrow>
                 (fold (\<lambda>(release_id, new_groups) g.
                          AList.update release_id [(project_id_of p, new_groups)] g)
                       (new_groups_of_project ext (project_id_of p) (map rel_id item_list)) [],
                  [NewGroupsOfProjectQuery (project_id_of p) (map rel_id item_list)])
             | None \<Rightarrow>
                 (fold (\<lambda>(project_id, release_id, new_groups) g.
                          set_project_count release_id project_id (Some new_groups) g)
                       (new_groups_not_null ext (map rel_id item_list)) [],
                  [NewGroupsNotNullQuery (map rel_id item_list)]))
      in ((first_seen, last_seen, group_counts_by_release),
          log1 @ [GetReleaseTags project_ids versions] @ log3))"

text \<open>The loop over the \<open>ReleaseProjectEnvironment\<close> rows (lines 268-278).\<close>

definition note_release_project_env ::
  "release_project_environment \<Rightarrow> seen_dict \<times> seen_dict \<Rightarrow> seen_dict \<times> seen_dict" where
  "note_release_project_env release_project_env acc =
     (case acc of (first_seen, last_seen) \<Rightarrow>
        (let v = rpe_release_version release_project_env
         in ((if (case map_of first_seen v of
                    None \<Rightarrow> True
                  | Some f \<Rightarrow> f > rpe_first_seen release_project_env)
              then AList.update v (rpe_first_seen release_project_env) first_seen
              else first_seen),
             (if (case map_of last_seen v of
                    None \<Rightarrow> True
                  | Some l \<Rightarrow> l < rpe_last_seen release_project_env)
              then AList.update v (rpe_last_seen release_project_env) last_seen
              else last_seen))))"

definition get_release_data_with_environments ::
  "collaborators \<Rightarrow> project_row option \<Rightarrow> release list \<Rightarrow> string list
     \<Rightarrow> (seen_dict \<times> seen_dict \<times> counts_dict) \<times> call list" where
  "get_release_data_with_environments ext project item_list environments =
     (let ids = map rel_id item_list;
          pid = map_option project_id_of project;
          release_project_envs = release_project_envs ext ids environments pid;
          (first_seen, last_seen) = fold note_release_project_env release_project_envs ([], []);
          group_counts_by_release =
            fold (\<lambda>(project_id, release_id, new_groups) g.
                    set_project_count release_id project_id new_groups g)
                 (new_issues_counts ext ids environments pid) []
      in ((first_seen, last_seen, group_counts_by_release),
          [ReleaseProjectEnvQuery ids environments pid,
           NewIssuesCountQuery ids environments pid]))"

section \<open>release.py: \<open>ReleaseSerializer.get_attrs\<close>\<close>

text \<open>
  The dict \<open>pr_rv\<close> of one project of a release. The key \<open>health_data\<close> exists only when
  health data was asked for (outer \<open>None\<close>: no such key), and is then \<open>None\<close> or an entry.
\<close>

record project_attrs =
  pa_id :: int
  pa_slug :: string
  pa_name :: string
  pa_new_groups :: "int option"
  pa_platform :: "string option"
  pa_platforms :: "string list"
  pa_health_data :: "health_data option option"
  pa_has_health_data :: bool

text \<open>
  The attribute dict of one release. Every key may be missing from a dict handed to
  \<open>serialize\<close>: a field is \<open>None\<close> when its key is absent and \<open>Some v\<close> when the key is bound
  to \<open>v\<close> (where \<open>v\<close> itself may be Python's \<open>None\<close>).
\<close>

record attrs =
  a_owner :: "serialized_user option option"
  a_new_groups :: "int option"
  a_projects :: "project_attrs list option"
  a_first_seen :: "timestamp option option"
  a_last_seen :: "timestamp option option"
  a_authors :: "author_user list option"
  a_last_commit :: "json option option"
  a_last_deploy :: "json option option"

text \<open>
  The keyword arguments, each as the value \<open>kwargs.get\<close> returns for it: \<open>None\<close> or the
  object for \<open>project\<close>, \<open>environment\<close> and \<open>environments\<close>, any value for the rest
  (\<open>JBool False\<close> for an absent \<open>with_health_data\<close>, \<open>JNone\<close> for the others when absent).
\<close>

record get_attrs_kwargs =
  kw_project :: "project_row option"
  kw_environment :: "environment_row option"
  kw_environments :: "string list option"
  kw_with_health_data :: json
  kw_health_stat :: json
  kw_health_stats_period :: json
  kw_summary_stats_period :: json
  kw_no_snuba :: json

text \<open>\<open>d[k].append(v)\<close> on a \<open>defaultdict(list)\<close>.\<close>

definition dict_append :: "'k \<Rightarrow> 'v \<Rightarrow> ('k \<times> 'v list) list \<Rightarrow> ('k \<times> 'v list) list" where
  "dict_append k v d = AList.update k ((case map_of d k of None \<Rightarrow> [] | Some vs \<Rightarrow> vs) @ [v]) d"

text \<open>The dict \<open>pr_rv\<close> built for one row (lines 362-379).\<close>

definition project_entry ::
  "(int \<times> string list) list \<Rightarrow> ((int \<times> string) \<times> health_data) list option
     \<Rightarrow> (int \<times> string) set \<Rightarrow> project_release \<Rightarrow> project_attrs" where
  "project_entry platforms_by_project health_data has_health_data pr =
     (let key = (pr_project_id pr, pr_release_version pr);
          platforms = (case map_of platforms_by_project (pr_project_id pr) of
                         None \<Rightarrow> [] | Some ps \<Rightarrow> ps)
      in case health_data of
           Some overview \<Rightarrow>
             \<lparr>pa_id = pr_project_id pr, pa_slug = pr_project_slug pr,
              pa_name = pr_project_name pr, pa_new_groups = pr_new_groups pr,
              pa_platform = pr_project_platform pr, pa_platforms = platforms,
              pa_health_data = Some (map_of overview key),
              pa_has_health_data =
                (case map_of overview key of None \<Rightarrow> False | Some h \<Rightarrow> hd_has_health_data h)\<rparr>
         | None \<Rightarrow>
             \<lparr>pa_id = pr_project_id pr, pa_slug = pr_project_slug pr,
              pa_name = pr_project_name pr, pa_new_groups = pr_new_groups pr,
              pa_platform = pr_project_platform pr, pa_platforms = platforms,
              pa_health_data = None,
              pa_has_health_data = (key \<in> has_health_data)\<rparr>)"

text \<open>\<open>sum(d.values())\<close>: adding \<open>None\<close> to an integer raises \<open>TypeError\<close>.\<close>

fun sum_values :: "int \<Rightarrow> int option list \<Rightarrow> error + int" where
  "sum_values acc [] = Inr acc"
| "sum_values acc (None # vs) = Inl (TypeError ''unsupported operand type(s) for +'')"
| "sum_values acc (Some v # vs) = sum_values (acc + v) vs"

text \<open>\<open>release_new_groups\<close> of one item (lines 386-394).\<close>

definition release_new_groups_of :: "counts_dict \<Rightarrow> release \<Rightarrow> error + int" where
  "release_new_groups_of issue_counts_by_release item =
     (let counts = (case map_of issue_counts_by_release (rel_id item) of
                      None \<Rightarrow> [] | Some d \<Rightarrow> d)
      in case rel_for_project_id item of
           Some p \<Rightarrow> Inr (case map_of counts p of Some (Some n) \<Rightarrow> n | _ \<Rightarrow> 0)
         | None \<Rightarrow> sum_values 0 (map snd counts))"

text \<open>\<open>owners[str(item.owner_id)] if item.owner_id else None\<close>.\<close>

definition owner_of ::
  "(string \<times> serialized_user) list \<Rightarrow> int option \<Rightarrow> error + serialized_user option" where
  "owner_of owners oid =
     (if truthy_id oid
      then (case oid of
              None \<Rightarrow> Inr None
            | Some i \<Rightarrow> (case map_of owners (str_int i) of
                           None \<Rightarrow> Inl (KeyError (str_int i))
                         | Some d \<Rightarrow> Inr (Some d)))
      else Inr None)"

text \<open>One round of the loop over \<open>item_list\<close> (lines 383-407): the dict \<open>p\<close> of the item.\<close>

definition item_attrs ::
  "(string \<times> serialized_user) list \<Rightarrow> (int \<times> project_attrs list) list \<Rightarrow> counts_dict
     \<Rightarrow> seen_dict \<Rightarrow> seen_dict \<Rightarrow> (release_key \<times> commit_metadata) list
     \<Rightarrow> (release_key \<times> deploy_metadata) list \<Rightarrow> release \<Rightarrow> error + attrs" where
  "item_attrs owners release_projects issue_counts_by_release first_seen last_seen
       release_metadata_attrs deploy_metadata_attrs item =
     (let single_release_projects =
            (case map_of release_projects (rel_id item) of None \<Rightarrow> [] | Some ps \<Rightarrow> ps);
          single_release_projects =
            (case rel_for_project_id item of
               Some p \<Rightarrow> filter (\<lambda>x. pa_id x = p) single_release_projects
             | None \<Rightarrow> single_release_projects)
      in case release_new_groups_of issue_counts_by_release item of
           Inl e \<Rightarrow> Inl e
         | Inr release_new_groups \<Rightarrow>
             (case owner_of owners (rel_owner_id item) of
                Inl e \<Rightarrow> Inl e
              | Inr item_owner \<Rightarrow>
                  (case map_of release_metadata_attrs (release_key item) of
                     None \<Rightarrow> Inl (KeyError ''release'')
                   | Some md \<Rightarrow>
                       (case map_of deploy_metadata_attrs (release_key item) of
                          None \<Rightarrow> Inl (KeyError ''release'')
                        | Some dd \<Rightarrow>
                            Inr \<lparr>a_owner = Some item_owner,
                                 a_new_groups = Some release_new_groups,
                                 a_projects = Some single_release_projects,
                                 a_first_seen = Some (map_of first_seen (rel_version item)),
                                 a_last_seen = Some (map_of last_seen (rel_version item)),
                                 a_authors = Some (cm_authors md),
                                 a_last_commit = Some (cm_last_commit md),
                                 a_last_deploy = Some (dm_last_deploy dd)\<rparr>))))"

text \<open>The loop itself: the first item that raises ends it.\<close>

fun attrs_loop ::
  "(release \<Rightarrow> error + attrs) \<Rightarrow> release list \<Rightarrow> (release_key \<times> attrs) list
     \<Rightarrow> error + (release_key \<times> attrs) list" where
  "attrs_loop f [] result = Inr result"
| "attrs_loop f (item # items) result =
     (case f item of
        Inl e \<Rightarrow> Inl e
      | Inr p \<Rightarrow> attrs_loop f items (AList.update (release_key item) p result))"

text \<open>
  The environment names in force (lines 293-299): the \<open>environments\<close> argument when it is a
  non-empty list, else the name of the \<open>environment\<close> object when there is one, else \<open>None\<close>.
\<close>

definition effective_environments :: "get_attrs_kwargs \<Rightarrow> string list option" where
  "effective_environments kwargs =
     (let environment = kw_environment kwargs;
          environments = kw_environments kwargs
      in if environments = None \<or> environments = Some []
         then (case environment of
                 Some e \<Rightarrow> Some [environment_name e]
               | None \<Rightarrow> None)
         else environments)"

text \<open>The choice between the two helpers (lines 309-318).\<close>

definition get_release_data ::
  "collaborators \<Rightarrow> project_row option \<Rightarrow> release list \<Rightarrow> string list option
     \<Rightarrow> (seen_dict \<times> seen_dict \<times> counts_dict) \<times> call list" where
  "get_release_data ext project item_list environments =
     (case environments of
        None \<Rightarrow> get_release_data_no_environment ext project item_list
      | Some envs \<Rightarrow> get_release_data_with_environments ext project item_list envs)"

definition get_attrs ::
  "collaborators \<Rightarrow> release list \<Rightarrow> viewer \<Rightarrow> get_attrs_kwargs
     \<Rightarrow> (error + (release_key \<times> attrs) list) \<times> call list" where
  "get_attrs ext item_list user kwargs =
     (let project = kw_project kwargs;
          environments = effective_environments kwargs;
          with_health_data = kw_with_health_data kwargs;
          health_stat = kw_health_stat kwargs;
          health_stats_period = kw_health_stats_period kwargs;
          summary_stats_period = kw_summary_stats_period kwargs;
          no_snuba = kw_no_snuba kwargs
      in if truthy with_health_data \<and> truthy no_snuba
         then (Inl (TypeError ''health data requires snuba''), [])
         else
           (let ((first_seen, last_seen, issue_counts_by_release), log1) =
                  get_release_data ext project item_list environments;
                owner_rows = remdups (map rel_owner (filter (\<lambda>i. truthy_id (rel_owner_id i)) item_list));
                owners = dict_of_pairs (map (\<lambda>d. (su_id d, d)) (serialize_users ext owner_rows user));
                (release_metadata_attrs, log3) = get_commit_metadata ext item_list user;
                (deploy_metadata_attrs, log4) = get_deploy_metadata ext item_list user;
                ids = map rel_id item_list;
                project_releases = project_releases_of ext ids;
                platform_ids = pr_project_id ` set project_releases;
                platforms = project_platforms ext platform_ids;
                platforms_by_project =
                  fold (\<lambda>(project_id, platform) d. dict_append project_id platform d) platforms [];
                pairs = map (\<lambda>pr. (pr_project_id pr, pr_release_version pr)) project_releases;
                (health_data, has_health_data, log6) =
                  (if truthy with_health_data
                   then (Some (get_release_health_data_overview ext pairs health_stats_period
                                 summary_stats_period environments health_stat),
                         {},
                         [HealthDataOverview pairs health_stats_period summary_stats_period
                            environments health_stat])
                   else if truthy no_snuba then (None, {}, [])
                   else (None, check_has_health_data ext pairs, [CheckHasHealthData pairs]));
                release_projects =
                  fold (\<lambda>pr d. dict_append (pr_release_id pr)
                                  (project_entry platforms_by_project health_data has_health_data pr) d)
                       project_releases []
            in (attrs_loop
                  (item_attrs owners release_projects issue_counts_by_release first_seen last_seen
                     release_metadata_attrs deploy_metadata_attrs)
                  item_list [],
                log1 @ [SerializeUsers owner_rows user] @ log3 @ log4 @
                [ProjectReleaseQuery ids, ProjectPlatformQuery platform_ids] @ log6)))"

section \<open>release.py: \<open>ReleaseSerializer.serialize\<close>\<close>

text \<open>
  The values of the dicts that \<open>serialize\<close> returns: Python's \<open>None\<close>, scalars, a value
  passed on as it came (\<open>PJson\<close>), a serialized user, an author's user, lists and dicts.
\<close>

datatype pyval =
    PNone
  | PBool bool
  | PInt int
  | PStr string
  | PDate timestamp
  | PJson json
  | PUser serialized_user
  | PAuthor author_user
  | PList "pyval list"
  | PDict "(string \<times> pyval) list"

definition expose_version_info :: "version_info_dict option \<Rightarrow> pyval" where
  "expose_version_info info =
     (case info of
        None \<Rightarrow> PNone
      | Some i \<Rightarrow>
          (let version = [(''raw'', PJson (vi_version_raw i))];
               version =
                 (case vi_version_parsed i of
                    Some vp \<Rightarrow>
                      version @
                      [(''major'', PJson (vp_major vp)),
                       (''minor'', PJson (vp_minor vp)),
                       (''patch'', PJson (vp_patch vp)),
                       (''pre'', PJson (vp_pre vp)),
                       (''buildCode'', PJson (vp_build_code vp)),
                       (''components'', PJson (vp_components vp))]
                  | None \<Rightarrow> version)
           in PDict [(''package'', PJson (vi_package i)),
                     (''version'', PDict version),
                     (''description'', PJson (vi_description i)),
                     (''buildHash'', PJson (vi_build_hash i))]))"

definition expose_health_data :: "health_data option \<Rightarrow> pyval" where
  "expose_health_data data =
     (case data of
        None \<Rightarrow> PNone
      | Some h \<Rightarrow>
          PDict [(''durationP50'', PJson (hd_duration_p50 h)),
                 (''durationP90'', PJson (hd_duration_p90 h)),
                 (''crashFreeUsers'', PJson (hd_crash_free_users h)),
                 (''crashFreeSessions'', PJson (hd_crash_free_sessions h)),
                 (''sessionsCrashed'', PJson (hd_sessions_crashed h)),
                 (''sessionsErrored'', PJson (hd_sessions_errored h)),
                 (''totalUsers'', PJson (hd_total_users h)),
                 (''totalUsers24h'', PJson (hd_total_users_24h h)),
                 (''totalSessions'', PJson (hd_total_sessions h)),
                 (''totalSessions24h'', PJson (hd_total_sessions_24h h)),
                 (''adoption'', PJson (hd_adoption h)),
                 (''stats'', (case hd_stats h of None \<Rightarrow> PNone | Some st \<Rightarrow> PJson st)),
                 (''hasHealthData'', PBool (hd_has_health_data h))])"

definition pyval_of_int_option :: "int option \<Rightarrow> pyval" where
  "pyval_of_int_option x = (case x of None \<Rightarrow> PNone | Some i \<Rightarrow> PInt i)"

definition pyval_of_str_option :: "string option \<Rightarrow> pyval" where
  "pyval_of_str_option x = (case x of None \<Rightarrow> PNone | Some t \<Rightarrow> PStr t)"

definition pyval_of_date_option :: "timestamp option \<Rightarrow> pyval" where
  "pyval_of_date_option x = (case x of None \<Rightarrow> PNone | Some t \<Rightarrow> PDate t)"

definition pyval_of_json_option :: "json option \<Rightarrow> pyval" where
  "pyval_of_json_option x = (case x of None \<Rightarrow> PNone | Some j \<Rightarrow> PJson j)"

definition pyval_of_user_option :: "serialized_user option \<Rightarrow> pyval" where
  "pyval_of_user_option x = (case x of None \<Rightarrow> PNone | Some u \<Rightarrow> PUser u)"

definition expose_project :: "project_attrs \<Rightarrow> pyval" where
  "expose_project project =
     (let rv = [(''id'', PInt (pa_id project)),
                (''slug'', PStr (pa_slug project)),
                (''name'', PStr (pa_name project)),
                (''newGroups'', pyval_of_int_option (pa_new_groups project)),
                (''platform'', pyval_of_str_option (pa_platform project)),
                (''platforms'', PList (map PStr (pa_platforms project))),
                (''hasHealthData'', PBool (pa_has_health_data project))]
      in case pa_health_data project of
           Some h \<Rightarrow> PDict (rv @ [(''healthData'', expose_health_data h)])
         | None \<Rightarrow> PDict rv)"

text \<open>
  \<open>ReleaseSerializer.serialize\<close>. \<open>ReleaseStatus.to_string\<close> belongs to the models and is
  the parameter \<open>to_string\<close>. \<open>attrs["new_groups"]\<close> and \<open>attrs["owner"]\<close> raise \<open>KeyError\<close>
  on a dict without the key; the other keys are read with \<open>attrs.get\<close>.
\<close>

definition ReleaseSerializer_serialize ::
  "(json \<Rightarrow> string) \<Rightarrow> release \<Rightarrow> attrs \<Rightarrow> error + (string \<times> pyval) list" where
  "ReleaseSerializer_serialize to_string obj attrs =
     (case a_new_groups attrs of
        None \<Rightarrow> Inl (KeyError ''new_groups'')
      | Some new_groups \<Rightarrow>
          (case a_owner attrs of
             None \<Rightarrow> Inl (KeyError ''owner'')
           | Some attrs_owner \<Rightarrow>
               Inr [(''version'', PStr (rel_version obj)),
                    (''status'', PStr (to_string (rel_status obj))),
                    (''shortVersion'', PStr (rel_version obj)),
                    (''versionInfo'', expose_version_info (rel_version_info obj)),
                    (''ref'', PJson (rel_ref obj)),
                    (''url'', PJson (rel_url obj)),
                    (''dateReleased'', PJson (rel_date_released obj)),
                    (''dateCreated'', PJson (rel_date_added obj)),
                    (''data'', PJson (rel_data obj)),
                    (''newGroups'', PInt new_groups),
                    (''owner'', pyval_of_user_option attrs_owner),
                    (''commitCount'', PJson (rel_commit_count obj)),
                    (''lastCommit'',
                       (case a_last_commit attrs of
                          None \<Rightarrow> PNone | Some c \<Rightarrow> pyval_of_json_option c)),
                    (''deployCount'', PJson (rel_total_deploys obj)),
                    (''lastDeploy'',
                       (case a_last_deploy attrs of
                          None \<Rightarrow> PNone | Some c \<Rightarrow> pyval_of_json_option c)),
                    (''authors'',
                       (case a_authors attrs of
                          None \<Rightarrow> PList [] | Some us \<Rightarrow> PList (map PAuthor us))),
                    (''projects'',
                       (case a_projects attrs of
                          None \<Rightarrow> PList [] | Some ps \<Rightarrow> PList (map expose_project ps))),
                    (''firstEvent'',
                       (case a_first_seen attrs of
                          None \<Rightarrow> PNone | Some t \<Rightarrow> pyval_of_date_option t)),
                    (''lastEvent'',
                       (case a_last_seen attrs of
                          None \<Rightarrow> PNone | Some t \<Rightarrow> pyval_of_date_option t))]))"

section \<open>The answers of the collaborators\<close>

text \<open>
  What a collaborator answers to a call: the rows of a query, the dict of a cache read, the
  output of a serializer, nothing for a cache write or a metric. Two sets of collaborators
  give the same answers on a log when they answer each of its calls alike.
\<close>

datatype response =
    RNothing
  | RCache "(string \<times> author_user) list"
  | RUserEmails "user_email_row list"
  | RUsers "user_row list"
  | RSerializedUsers "serialized_user list"
  | RCommitAuthors "commit_author list"
  | RCommits "commit_row list"
  | RDeploys "deploy_row list"
  | RSerialized "json list"
  | RProjectIds "int list"
  | RTagValues "tag_value list"
  | RNewGroups "(int \<times> int option) list"
  | RNewGroupsNotNull "(int \<times> int \<times> int) list"
  | RReleaseProjectEnvs "release_project_environment list"
  | RNewIssuesCounts "(int \<times> int \<times> int option) list"
  | RProjectReleases "project_release list"
  | RPlatforms "(int \<times> string) list"
  | RHealthData "((int \<times> string) \<times> health_data) list"
  | RHasHealthData "(int \<times> string) set"

fun answer :: "collaborators \<Rightarrow> call \<Rightarrow> response" where
  "answer ext (CacheGetMany keys) = RCache (cache_get_many ext keys)"
| "answer ext (CacheSetMany to_cache) = RNothing"
| "answer ext (UserEmailQuery emails) = RUserEmails (user_email_in_iexact ext emails)"
| "answer ext (UserQuery ids organization_id) = RUsers (active_org_users ext ids organization_id)"
| "answer ext (SerializeUsers users user) = RSerializedUsers (serialize_users ext users user)"
| "answer ext (MetricsIncr name amount) = RNothing"
| "answer ext (CommitAuthorQuery ids) = RCommitAuthors (commit_authors_in ext ids)"
| "answer ext (CommitQuery ids) = RCommits (commits_in ext ids)"
| "answer ext (SerializeCommits commits user) = RSerialized (serialize_commits ext commits user)"
| "answer ext (DeployQuery ids) = RDeploys (deploys_in ext ids)"
| "answer ext (SerializeDeploys deploys user) = RSerialized (serialize_deploys ext deploys user)"
| "answer ext (ReleaseProjectIdsQuery ids) = RProjectIds (release_project_ids ext ids)"
| "answer ext (GetReleaseTags project_ids versions) = RTagValues (get_release_tags ext project_ids versions)"
| "answer ext (NewGroupsOfProjectQuery project ids) = RNewGroups (new_groups_of_project ext project ids)"
| "answer ext (NewGroupsNotNullQuery ids) = RNewGroupsNotNull (new_groups_not_null ext ids)"
| "answer ext (ReleaseProjectEnvQuery ids environments project) =
     RReleaseProjectEnvs (release_project_envs ext ids environments project)"
| "answer ext (NewIssuesCountQuery ids environments project) =
     RNewIssuesCounts (new_issues_counts ext ids environments project)"
| "answer ext (ProjectReleaseQuery ids) = RProjectReleases (project_releases_of ext ids)"
| "answer ext (ProjectPlatformQuery ids) = RPlatforms (project_platforms ext ids)"
| "answer ext (HealthDataOverview pairs health_stats_period summary_stats_period environments stat) =
     RHealthData (get_release_health_data_overview ext pairs health_stats_period
                    summary_stats_period environments stat)"
| "answer ext (CheckHasHealthData pairs) = RHasHealthData (check_has_health_data ext pairs)"

definition same_answers :: "collaborators \<Rightarrow> collaborators \<Rightarrow> call list \<Rightarrow> bool" where
  "same_answers ext1 ext2 log = list_all (\<lambda>c. answer ext2 c = answer ext1 c) log"

section \<open>Counting the calls of a run\<close>

fun is_cache_get_many :: "call \<Rightarrow> bool" where
  "is_cache_get_many (CacheGetMany _) = True" | "is_cache_get_many _ = False"
fun is_cache_set_many :: "call \<Rightarrow> bool" where
  "is_cache_set_many (CacheSetMany _) = True" | "is_cache_set_many _ = False"
fun is_user_email_query :: "call \<Rightarrow> bool" where
  "is_user_email_query (UserEmailQuery _) = True" | "is_user_email_query _ = False"
fun is_user_query :: "call \<Rightarrow> bool" where
  "is_user_query (UserQuery _ _) = True" | "is_user_query _ = False"

definition count_calls :: "(call \<Rightarrow> bool) \<Rightarrow> call list \<Rightarrow> nat" where
  "count_calls p log = length (filter p log)"

section \<open>A worked example\<close>

text \<open>
  Three commit authors, of whom the cache knows the third and the user table the first;
  release 1.0 of organization 1, specialized for project 5, and release 2.0, not
  specialized; collaborators that answer every query with the same few rows.
\<close>

definition example_authors :: "commit_author list" where
  "example_authors =
     [\<lparr>author_id = 1, author_name = Some ''Ann'', author_email = ''Ann@x.io''\<rparr>,
      \<lparr>author_id = 2, author_name = None, author_email = ''bo@x.io''\<rparr>,
      \<lparr>author_id = 3, author_name = Some ''Cy'', author_email = ''cy@x.io''\<rparr>]"

definition example_project_releases :: "project_release list" where
  "example_project_releases =
     [\<lparr>pr_new_groups = Some 4, pr_release_id = 1, pr_release_version = ''1.0'',
       pr_project_slug = ''web'', pr_project_name = ''Web'', pr_project_id = 5,
       pr_project_platform = Some ''python''\<rparr>,
      \<lparr>pr_new_groups = Some 3, pr_release_id = 1, pr_release_version = ''1.0'',
       pr_project_slug = ''api'', pr_project_name = ''Api'', pr_project_id = 6,
       pr_project_platform = None\<rparr>,
      \<lparr>pr_new_groups = Some 2, pr_release_id = 2, pr_release_version = ''2.0'',
       pr_project_slug = ''web'', pr_project_name = ''Web'', pr_project_id = 5,
       pr_project_platform = Some ''python''\<rparr>]"

definition example_ext :: collaborators where
  "example_ext =
     \<lparr>md5_hex = (\<lambda>s. s),
      cache_get_many =
        (\<lambda>keys. filter (\<lambda>kv. fst kv \<in> set keys)
           [(''get_users_for_authors:1:cy@x.io'', AuthorDict (Some ''Cy'') ''cy@x.io'')]),
      user_email_in_iexact = (\<lambda>emails. [\<lparr>ue_id = 10, ue_user_id = 7, ue_email = ''ann@X.io''\<rparr>]),
      active_org_users = (\<lambda>ids org. [\<lparr>user_pk = 7, user_username = ''ann''\<rparr>]),
      serialize_users =
        (\<lambda>rows viewer. map (\<lambda>r. \<lparr>su_id = str_int (user_pk r), su_email = ''ann@x.io'', su_rest = []\<rparr>) rows),
      commit_authors_in = (\<lambda>ids. example_authors),
      commits_in = (\<lambda>ids. [\<lparr>commit_id = 9, commit_key = ''abc''\<rparr>]),
      serialize_commits = (\<lambda>rows viewer. map (\<lambda>c. JStr (commit_key c)) rows),
      deploys_in = (\<lambda>ids. []),
      serialize_deploys = (\<lambda>rows viewer. []),
      release_project_ids = (\<lambda>ids. [5, 6]),
      get_release_tags =
        (\<lambda>project_ids versions.
           [\<lparr>tv_key = ''sentry:release'', tv_value = ''1.0'', tv_times_seen = 2,
             tv_first_seen = 30, tv_last_seen = 40\<rparr>,
            \<lparr>tv_key = ''sentry:release'', tv_value = ''1.0'', tv_times_seen = 1,
             tv_first_seen = 10, tv_last_seen = 20\<rparr>]),
      new_groups_of_project = (\<lambda>project ids. [(1, Some 4)]),
      new_groups_not_null = (\<lambda>ids. [(5, 1, 4), (6, 1, 3), (5, 2, 2)]),
      release_project_envs = (\<lambda>ids environments project. []),
      new_issues_counts = (\<lambda>ids environments project. []),
      project_releases_of = (\<lambda>ids. example_project_releases),
      project_platforms = (\<lambda>ids. [(5, ''python'')]),
      get_release_health_data_overview = (\<lambda>pairs p1 p2 environments stat. []),
      check_has_health_data = (\<lambda>pairs. {})\<rparr>"

definition example_release :: release where
  "example_release =
     \<lparr>rel_id = 1, rel_organization_id = 1, rel_version = ''1.0'', rel_status = JInt 0,
      rel_version_info = None, rel_ref = JNone, rel_url = JNone, rel_date_released = JNone,
      rel_date_added = JDate 5, rel_data = JDict [], rel_commit_count = JInt 2,
      rel_total_deploys = JInt 0, rel_owner_id = None,
      rel_owner = \<lparr>user_pk = 0, user_username = []\<rparr>, rel_authors = [''1'', ''2''],
      rel_last_commit_id = Some 9, rel_last_deploy_id = None, rel_for_project_id = Some 5\<rparr>"

definition example_kwargs :: get_attrs_kwargs where
  "example_kwargs =
     \<lparr>kw_project = None, kw_environment = None, kw_environments = None,
      kw_with_health_data = JBool False, kw_health_stat = JNone,
      kw_health_stats_period = JNone, kw_summary_stats_period = JNone, kw_no_snuba = JNone\<rparr>"

definition example_items :: "release list" where
  "example_items =
     [example_release,
      example_release\<lparr>rel_id := 2, rel_version := ''2.0'', rel_authors := [''3''],
                       rel_last_commit_id := None, rel_for_project_id := None\<rparr>]"

definition example_attrs :: attrs where
  "example_attrs =
     \<lparr>a_owner = Some None, a_new_groups = Some 4, a_projects = None, a_first_seen = None,
      a_last_seen = None, a_authors = None, a_last_commit = None, a_last_deploy = None\<rparr>"

definition example_mixed_items :: "release list" where
  "example_mixed_items = example_items @ [example_release\<lparr>rel_id := 3, rel_organization_id := 2\<rparr>]"


section \<open>Auxiliary notions for the proofs\<close>

text \<open>
  What a dict of sightings holds for a key after a loop: the pick (least or greatest) among
  the value \<open>old\<close> it held before and the values \<open>xs\<close> the loop saw for the key.
\<close>

definition seen_of :: "timestamp option \<Rightarrow> timestamp list \<Rightarrow> (timestamp set \<Rightarrow> timestamp) \<Rightarrow> timestamp option" where
  "seen_of old xs pick =
     (case old of
        None \<Rightarrow> (if xs = [] then None else Some (pick (set xs)))
      | Some t \<Rightarrow> Some (pick (insert t (set xs))))"

section \<open>Properties\<close>

lemma lower_char_ascii_fold: "lower_char (ascii_fold_char c) = lower_char c"
proof (cases "65 \<le> (of_char c :: nat) \<and> (of_char c :: nat) \<le> 90")
  case True
  then have m: "(of_char c + 32) mod 256 = (of_char c + 32 :: nat)" by simp
  from True show ?thesis
    by (simp add: lower_char_def ascii_fold_char_def Let_def m)
next
  case False
  then show ?thesis by (auto simp add: ascii_fold_char_def Let_def)
qed

lemma lower_ascii_fold: "lower (map ascii_fold_char s) = lower s"
  by (simp add: lower_def lower_char_ascii_fold)

lemma equal_up_to_ascii_case_lower:
  assumes "equal_up_to_ascii_case a b"
  shows "lower a = lower b"
proof -
  have "lower a = lower (map ascii_fold_char a)" by (simp add: lower_ascii_fold)
  also have "\<dots> = lower (map ascii_fold_char b)"
    using assms by (simp add: equal_up_to_ascii_case_def)
  also have "\<dots> = lower b" by (simp add: lower_ascii_fold)
  finally show ?thesis .
qed

text \<open>
  C8. For every path-config row, the serialized dict carries the row's own values:
  \<open>id\<close>, \<open>projectId\<close>, \<open>repoId\<close> and \<open>integrationId\<close> are the decimal strings of the
  ids, and \<open>projectSlug\<close>, \<open>repoName\<close>, \<open>stackRoot\<close>, \<open>sourceRoot\<close>, \<open>defaultBranch\<close> are
  the row's fields.
\<close>

theorem path_config_serialize_matches_row:
  "(let d = map_of (RepositoryProjectPathConfigSerializer_serialize get_provider serialize_provider obj)
    in d ''id'' = Some (JStr (str_int (config_id obj)))
     \<and> d ''projectId'' = Some (JStr (str_int (config_project_id obj)))
     \<and> d ''projectSlug'' = Some (JStr (project_slug (config_project obj)))
     \<and> d ''repoId'' = Some (JStr (str_int (repository_id (config_repository obj))))
     \<and> d ''repoName'' = Some (JStr (repository_name (config_repository obj)))
     \<and> d ''integrationId'' =
           Some (JStr (str_int (integration_id (integration (organization_integration obj)))))
     \<and> d ''stackRoot'' = Some (JStr (stack_root obj))
     \<and> d ''sourceRoot'' = Some (JStr (source_root obj))
     \<and> d ''defaultBranch'' = Some (json_of_str_option (default_branch obj)))"
  unfolding RepositoryProjectPathConfigSerializer_serialize_def Let_def
  by simp

text \<open>
  C2. The cache key is \<open>get_users_for_authors:\<close>, the organization id, a colon and the
  hex MD5 digest of the lowercased email; two authors whose emails are equal up to ASCII
  case get the same key.
\<close>

theorem cache_key_format_and_case_insensitive:
  "user_to_author_cache_key hexdigest organization_id author =
     ''get_users_for_authors:'' @ str_int organization_id @ '':'' @ hexdigest (lower (author_email author))
   \<and> (equal_up_to_ascii_case (author_email a1) (author_email a2) \<longrightarrow>
        user_to_author_cache_key hexdigest organization_id a1 =
        user_to_author_cache_key hexdigest organization_id a2)"
  by (simp add: user_to_author_cache_key_def Let_def equal_up_to_ascii_case_lower)

theorem cache_key_format_and_case_insensitive_witness:
  "equal_up_to_ascii_case ''Bob@Example.com'' ''bob@example.COM''
   \<and> user_to_author_cache_key (\<lambda>s. s) 42
        \<lparr>author_id = 1, author_name = Some ''Bob'', author_email = ''Bob@Example.com''\<rparr> =
      ''get_users_for_authors:42:bob@example.com''
   \<and> user_to_author_cache_key (\<lambda>s. s) 42
        \<lparr>author_id = 1, author_name = Some ''Bob'', author_email = ''Bob@Example.com''\<rparr> =
      user_to_author_cache_key (\<lambda>s. s) 42
        \<lparr>author_id = 2, author_name = None, author_email = ''bob@example.COM''\<rparr>"
proof -
  have h: "equal_up_to_ascii_case ''Bob@Example.com'' ''bob@example.COM''"
    by code_simp
  have k: "user_to_author_cache_key (\<lambda>s. s) 42
        \<lparr>author_id = 1, author_name = Some ''Bob'', author_email = ''Bob@Example.com''\<rparr> =
      ''get_users_for_authors:42:bob@example.com''"
    by code_simp
  have e: "user_to_author_cache_key (\<lambda>s. s) 42
        \<lparr>author_id = 1, author_name = Some ''Bob'', author_email = ''Bob@Example.com''\<rparr> =
      user_to_author_cache_key (\<lambda>s. s) 42
        \<lparr>author_id = 2, author_name = None, author_email = ''bob@example.COM''\<rparr>"
  proof (rule cache_key_format_and_case_insensitive [THEN conjunct2, THEN mp])
    show "equal_up_to_ascii_case
        (author_email \<lparr>author_id = 1, author_name = Some ''Bob'', author_email = ''Bob@Example.com''\<rparr>)
        (author_email \<lparr>author_id = 2, author_name = None, author_email = ''bob@example.COM''\<rparr>)"
      using h by simp
  qed
  show ?thesis
    by (intro conjI h k e)
qed

subsection \<open>\<open>get_users_for_authors\<close>\<close>

lemma split_fetched_pair:
  "split_fetched ext org fetched a (m, r) =
     (case map_of fetched (user_to_author_cache_key (md5_hex ext) org a) of
        None \<Rightarrow> (m @ [a], r)
      | Some w \<Rightarrow> (m, AList.update (str_int (author_id a)) w r))"
  by (simp add: split_fetched_def)

lemma split_fetched_fold:
  "fold (split_fetched ext org fetched) as (m, r) = (m', r') \<Longrightarrow>
     m' = m @ filter (\<lambda>a. map_of fetched (user_to_author_cache_key (md5_hex ext) org a) = None) as
   \<and> fst ` set r' = fst ` set r \<union>
        (\<lambda>a. str_int (author_id a)) `
          {a \<in> set as. map_of fetched (user_to_author_cache_key (md5_hex ext) org a) \<noteq> None}
   \<and> (\<forall>k v. map_of r' k = Some v \<longrightarrow> map_of r k = Some v \<or>
         (\<exists>a\<in>set as. str_int (author_id a) = k \<and>
            map_of fetched (user_to_author_cache_key (md5_hex ext) org a) = Some v))"
proof (induction as arbitrary: m r)
  case Nil
  then show ?case by simp
next
  case (Cons a as)
  show ?case
  proof (cases "map_of fetched (user_to_author_cache_key (md5_hex ext) org a)")
    case None
    with Cons.prems have "fold (split_fetched ext org fetched) as (m @ [a], r) = (m', r')"
      by (simp add: split_fetched_pair)
    from Cons.IH [OF this] None show ?thesis by auto
  next
    case (Some w)
    with Cons.prems have
      "fold (split_fetched ext org fetched) as (m, AList.update (str_int (author_id a)) w r) = (m', r')"
      by (simp add: split_fetched_pair)
    from Cons.IH [OF this] Some show ?thesis
      by (auto simp: AList.dom_update AList.update_conv' split: if_splits)
  qed
qed


lemma users_by_id_fold:
  "map_of (fold (\<lambda>u d. AList.update (su_id u) u d) users d0) k = Some u \<Longrightarrow>
     map_of d0 k = Some u \<or> (u \<in> set users \<and> su_id u = k)"
proof (induction users arbitrary: d0)
  case Nil
  then show ?case by simp
next
  case (Cons a users)
  from Cons.prems have
    "map_of (fold (\<lambda>u d. AList.update (su_id u) u d) users (AList.update (su_id a) a d0)) k = Some u"
    by simp
  from Cons.IH [OF this] show ?case
    by (auto simp: AList.update_conv' split: if_splits)
qed

lemma users_by_id_keys:
  "fst ` set (fold (\<lambda>u d. AList.update (su_id u) u d) users d0) = fst ` set d0 \<union> su_id ` set users"
  by (induction users arbitrary: d0) (auto simp: AList.dom_update)

lemma users_by_id_of_Some:
  "map_of (users_by_id_of users) k = Some u \<Longrightarrow> u \<in> set users \<and> su_id u = k"
  using users_by_id_fold [of users "[]" k u] by (simp add: users_by_id_of_def)

lemma users_by_id_of_None:
  "map_of (users_by_id_of users) k = None \<longleftrightarrow> k \<notin> su_id ` set users"
  using users_by_id_keys [of users "[]"]
  by (simp add: users_by_id_of_def map_of_eq_None_iff)

lemma match_email_fold_Some:
  "map_of (fold (match_email ubi) ues acc) k = Some u \<Longrightarrow>
     map_of acc k = Some u \<or>
     (\<exists>ue\<in>set ues. lower (ue_email ue) = k \<and> map_of ubi (str_int (ue_user_id ue)) = Some u)"
proof (induction ues arbitrary: acc)
  case Nil
  then show ?case by simp
next
  case (Cons e ues)
  from Cons.prems have "map_of (fold (match_email ubi) ues (match_email ubi e acc)) k = Some u"
    by simp
  from Cons.IH [OF this] show ?case
    by (auto simp: match_email_def Let_def AList.update_conv' split: if_splits option.splits)
qed

lemma match_email_fold_keys:
  "k \<in> fst ` set (fold (match_email ubi) ues acc) \<longleftrightarrow>
     k \<in> fst ` set acc \<or>
     (\<exists>ue\<in>set ues. lower (ue_email ue) = k \<and> map_of ubi (str_int (ue_user_id ue)) \<noteq> None)"
proof (induction ues arbitrary: acc)
  case Nil
  then show ?case by simp
next
  case (Cons e ues)
  have step: "k \<in> fst ` set (match_email ubi e acc) \<longleftrightarrow>
      k \<in> fst ` set acc \<or> (lower (ue_email e) = k \<and> map_of ubi (str_int (ue_user_id e)) \<noteq> None)"
    by (auto simp: match_email_def Let_def AList.dom_update split: option.splits)
  show ?case
    using Cons.IH [of "match_email ubi e acc"] step by auto
qed

lemma resolve_missed_pair:
  "resolve_missed ext org ube a (r, tc) =
     (AList.update (str_int (author_id a))
        (case map_of ube (lower (author_email a)) of
           Some u \<Rightarrow> SentryUser u
         | None \<Rightarrow> AuthorDict (author_name a) (author_email a)) r,
      AList.update (user_to_author_cache_key (md5_hex ext) org a)
        (case map_of ube (lower (author_email a)) of
           Some u \<Rightarrow> SentryUser u
         | None \<Rightarrow> AuthorDict (author_name a) (author_email a)) tc)"
  by (simp add: resolve_missed_def Let_def)

lemma resolve_missed_fold:
  "fold (resolve_missed ext org ube) ms (r, tc) = (r', tc') \<Longrightarrow>
     fst ` set r' = fst ` set r \<union> (\<lambda>a. str_int (author_id a)) ` set ms
   \<and> (\<forall>k v. map_of r' k = Some v \<longrightarrow> map_of r k = Some v \<or>
         (\<exists>a\<in>set ms. str_int (author_id a) = k \<and>
            v = (case map_of ube (lower (author_email a)) of
                   Some u \<Rightarrow> SentryUser u
                 | None \<Rightarrow> AuthorDict (author_name a) (author_email a))))"
proof (induction ms arbitrary: r tc)
  case Nil
  then show ?case by simp
next
  case (Cons a ms)
  from Cons.prems have
    "fold (resolve_missed ext org ube) ms (resolve_missed ext org ube a (r, tc)) = (r', tc')"
    by simp
  then have "fold (resolve_missed ext org ube) ms
      (AList.update (str_int (author_id a))
        (case map_of ube (lower (author_email a)) of
           Some u \<Rightarrow> SentryUser u
         | None \<Rightarrow> AuthorDict (author_name a) (author_email a)) r,
      AList.update (user_to_author_cache_key (md5_hex ext) org a)
        (case map_of ube (lower (author_email a)) of
           Some u \<Rightarrow> SentryUser u
         | None \<Rightarrow> AuthorDict (author_name a) (author_email a)) tc) = (r', tc')"
    by (simp only: resolve_missed_pair)
  from Cons.IH [OF this] show ?case
    by (auto simp: AList.dom_update AList.update_conv' split: if_splits)
qed


lemma get_users_for_authors_fst:
  "fst (get_users_for_authors ext org authors user) =
    (let fetched = cache_get_many ext (map (user_to_author_cache_key (md5_hex ext) org) authors);
         mr = (if fetched \<noteq> [] then fold (split_fetched ext org fetched) authors ([], [])
               else (authors, []));
         user_emails = user_email_in_iexact ext (map author_email (fst mr));
         users = serialize_users ext (active_org_users ext (ue_user_id ` set user_emails) org) user
     in if fst mr \<noteq> []
        then fst (fold (resolve_missed ext org (users_by_email_of (users_by_id_of users) user_emails))
                    (fst mr) (snd mr, []))
        else snd mr)"
  by (simp add: get_users_for_authors_def Let_def split: prod.splits)

lemma split_fetched_distinct:
  "distinct (map fst r) \<Longrightarrow> fold (split_fetched ext org fetched) as (m, r) = (m', r') \<Longrightarrow>
     distinct (map fst r')"
proof (induction as arbitrary: m r)
  case Nil
  then show ?case by simp
next
  case (Cons a as)
  show ?case
  proof (cases "map_of fetched (user_to_author_cache_key (md5_hex ext) org a)")
    case None
    with Cons.prems(2) have "fold (split_fetched ext org fetched) as (m @ [a], r) = (m', r')"
      by (simp add: split_fetched_pair)
    from Cons.IH [OF Cons.prems(1) this] show ?thesis .
  next
    case (Some w)
    with Cons.prems(2) have
      "fold (split_fetched ext org fetched) as (m, AList.update (str_int (author_id a)) w r) = (m', r')"
      by (simp add: split_fetched_pair)
    from Cons.IH [OF _ this] Cons.prems(1) show ?thesis
      by (simp add: AList.distinct_update)
  qed
qed

lemma resolve_missed_distinct:
  "distinct (map fst r) \<Longrightarrow> fold (resolve_missed ext org ube) ms (r, tc) = (r', tc') \<Longrightarrow>
     distinct (map fst r')"
proof (induction ms arbitrary: r tc)
  case Nil
  then show ?case by simp
next
  case (Cons a ms)
  from Cons.prems(2) have "fold (resolve_missed ext org ube) ms
      (AList.update (str_int (author_id a))
        (case map_of ube (lower (author_email a)) of
           Some u \<Rightarrow> SentryUser u
         | None \<Rightarrow> AuthorDict (author_name a) (author_email a)) r,
      AList.update (user_to_author_cache_key (md5_hex ext) org a)
        (case map_of ube (lower (author_email a)) of
           Some u \<Rightarrow> SentryUser u
         | None \<Rightarrow> AuthorDict (author_name a) (author_email a)) tc) = (r', tc')"
    by (simp add: resolve_missed_pair)
  from Cons.IH [OF _ this] Cons.prems(1) show ?case
    by (simp add: AList.distinct_update)
qed

lemma get_users_for_authors_distinct:
  "distinct (map fst (fst (get_users_for_authors ext org authors user)))"
proof -
  define fetched where "fetched = cache_get_many ext (map (user_to_author_cache_key (md5_hex ext) org) authors)"
  define mr where "mr = (if fetched \<noteq> [] then fold (split_fetched ext org fetched) authors ([], [])
               else (authors, []))"
  obtain m1 r1 where mr_eq: "mr = (m1, r1)" by (cases mr)
  have d1: "distinct (map fst r1)"
  proof (cases "fetched = []")
    case True
    with mr_eq show ?thesis by (simp add: mr_def)
  next
    case False
    with mr_eq have "fold (split_fetched ext org fetched) authors ([], []) = (m1, r1)"
      by (simp add: mr_def)
    from split_fetched_distinct [OF _ this] show ?thesis by simp
  qed
  have d2: "distinct (map fst (fst (fold (resolve_missed ext org ube) m1 (r1, []))))" for ube
    using resolve_missed_distinct [OF d1, of ext org ube m1 "[]"]
    by (cases "fold (resolve_missed ext org ube) m1 (r1, [])") simp
  show ?thesis
    unfolding get_users_for_authors_fst Let_def fetched_def [symmetric] mr_def [symmetric] mr_eq
    using d1 d2 by simp
qed

text \<open>
  C5. The keys of the returned dict are exactly the strings of the authors' ids, no key
  twice. Each value belongs to an author with that id and is the entry the cache returned
  for the author's key, or a serialized active user of the organization that a
  \<open>UserEmail\<close> row ties to the author's address compared in lower case, or the dict of the
  author's own name and email when no such row and user exist.
\<close>

theorem get_users_for_authors_result:
  "(let keyf = user_to_author_cache_key (md5_hex ext) organization_id;
        results = fst (get_users_for_authors ext organization_id authors user);
        fetched = cache_get_many ext (map keyf authors);
        missed = filter (\<lambda>a. map_of fetched (keyf a) = None) authors;
        user_emails = user_email_in_iexact ext (map author_email missed);
        users = serialize_users ext
                  (active_org_users ext (ue_user_id ` set user_emails) organization_id) user
    in fst ` set results = (\<lambda>a. str_int (author_id a)) ` set authors
     \<and> distinct (map fst results)
     \<and> (\<forall>k v. map_of results k = Some v \<longrightarrow>
          (\<exists>a\<in>set authors. str_int (author_id a) = k \<and>
             (map_of fetched (keyf a) = Some v
              \<or> (\<exists>u\<in>set users. v = SentryUser u \<and>
                    (\<exists>ue\<in>set user_emails. lower (ue_email ue) = lower (author_email a) \<and>
                                         str_int (ue_user_id ue) = su_id u))
              \<or> (v = AuthorDict (author_name a) (author_email a) \<and>
                  \<not> (\<exists>ue\<in>set user_emails. lower (ue_email ue) = lower (author_email a) \<and>
                                         str_int (ue_user_id ue) \<in> su_id ` set users))))))"
proof -
  define keyf where "keyf = user_to_author_cache_key (md5_hex ext) organization_id"
  define fetched where "fetched = cache_get_many ext (map keyf authors)"
  define missed where "missed = filter (\<lambda>a. map_of fetched (keyf a) = None) authors"
  define user_emails where "user_emails = user_email_in_iexact ext (map author_email missed)"
  define users where "users = serialize_users ext
                  (active_org_users ext (ue_user_id ` set user_emails) organization_id) user"
  define ube where "ube = users_by_email_of (users_by_id_of users) user_emails"
  define results where "results = fst (get_users_for_authors ext organization_id authors user)"
  define mr where "mr = (if fetched \<noteq> []
      then fold (split_fetched ext organization_id fetched) authors ([], []) else (authors, []))"
  obtain m1 r1 where mr_eq: "mr = (m1, r1)" by (cases mr)
  have first: "m1 = missed
     \<and> fst ` set r1 = (\<lambda>a. str_int (author_id a)) ` {a \<in> set authors. map_of fetched (keyf a) \<noteq> None}
     \<and> (\<forall>k v. map_of r1 k = Some v \<longrightarrow>
           (\<exists>a\<in>set authors. str_int (author_id a) = k \<and> map_of fetched (keyf a) = Some v))"
  proof (cases "fetched = []")
    case True
    then show ?thesis using mr_eq by (simp add: mr_def missed_def)
  next
    case False
    then have "fold (split_fetched ext organization_id fetched) authors ([], []) = (m1, r1)"
      using mr_eq by (simp add: mr_def)
    from split_fetched_fold [OF this] show ?thesis
      by (simp add: missed_def keyf_def)
  qed
  have res: "results = (if missed \<noteq> []
        then fst (fold (resolve_missed ext organization_id ube) missed (r1, [])) else r1)"
    using first mr_eq
    unfolding results_def get_users_for_authors_fst Let_def ube_def users_def user_emails_def
      mr_def [symmetric] fetched_def [symmetric] keyf_def [symmetric]
    by simp
  have ube_value: "(case map_of ube (lower (author_email a)) of
                   Some u \<Rightarrow> SentryUser u
                 | None \<Rightarrow> AuthorDict (author_name a) (author_email a)) = v \<Longrightarrow>
      (\<exists>u\<in>set users. v = SentryUser u \<and>
          (\<exists>ue\<in>set user_emails. lower (ue_email ue) = lower (author_email a) \<and>
                               str_int (ue_user_id ue) = su_id u))
      \<or> (v = AuthorDict (author_name a) (author_email a) \<and>
          \<not> (\<exists>ue\<in>set user_emails. lower (ue_email ue) = lower (author_email a) \<and>
                               str_int (ue_user_id ue) \<in> su_id ` set users))" for a v
  proof (cases "map_of ube (lower (author_email a))")
    case None
    then have "lower (author_email a) \<notin> fst ` set ube"
      by (simp add: map_of_eq_None_iff)
    then have "\<not> (\<exists>ue\<in>set user_emails. lower (ue_email ue) = lower (author_email a) \<and>
         map_of (users_by_id_of users) (str_int (ue_user_id ue)) \<noteq> None)"
      unfolding ube_def users_by_email_of_def
      using match_email_fold_keys [of "lower (author_email a)" "users_by_id_of users" user_emails "[]"]
      by simp
    then have "\<not> (\<exists>ue\<in>set user_emails. lower (ue_email ue) = lower (author_email a) \<and>
                               str_int (ue_user_id ue) \<in> su_id ` set users)"
      by (simp add: users_by_id_of_None)
    moreover assume "(case map_of ube (lower (author_email a)) of
                   Some u \<Rightarrow> SentryUser u
                 | None \<Rightarrow> AuthorDict (author_name a) (author_email a)) = v"
    ultimately show ?thesis using None by simp
  next
    case (Some u)
    then have "\<exists>ue\<in>set user_emails. lower (ue_email ue) = lower (author_email a) \<and>
        map_of (users_by_id_of users) (str_int (ue_user_id ue)) = Some u"
      unfolding ube_def users_by_email_of_def
      using match_email_fold_Some [of "users_by_id_of users" user_emails "[]" "lower (author_email a)" u]
      by simp
    then obtain ue where ue: "ue \<in> set user_emails" "lower (ue_email ue) = lower (author_email a)"
        "map_of (users_by_id_of users) (str_int (ue_user_id ue)) = Some u"
      by blast
    from users_by_id_of_Some [OF ue(3)] have "u \<in> set users" "su_id u = str_int (ue_user_id ue)"
      by simp_all
    moreover assume "(case map_of ube (lower (author_email a)) of
                   Some u \<Rightarrow> SentryUser u
                 | None \<Rightarrow> AuthorDict (author_name a) (author_email a)) = v"
    ultimately show ?thesis using Some ue by auto
  qed
  have keys: "fst ` set results = (\<lambda>a. str_int (author_id a)) ` set authors"
  proof (cases "missed = []")
    case True
    then have "\<forall>a\<in>set authors. map_of fetched (keyf a) \<noteq> None"
      by (simp add: missed_def filter_empty_conv)
    then have "{a \<in> set authors. map_of fetched (keyf a) \<noteq> None} = set authors" by blast
    then show ?thesis using True res first by simp
  next
    case False
    obtain r2 tc where f2: "fold (resolve_missed ext organization_id ube) missed (r1, []) = (r2, tc)"
      by (cases "fold (resolve_missed ext organization_id ube) missed (r1, [])")
    have "set authors = {a \<in> set authors. map_of fetched (keyf a) \<noteq> None} \<union> set missed"
      by (auto simp: missed_def)
    then have "(\<lambda>a. str_int (author_id a)) ` set authors =
        (\<lambda>a. str_int (author_id a)) ` {a \<in> set authors. map_of fetched (keyf a) \<noteq> None}
        \<union> (\<lambda>a. str_int (author_id a)) ` set missed"
      by (metis image_Un)
    then show ?thesis
      using False res f2 resolve_missed_fold [OF f2] first by simp
  qed
  have vals: "\<exists>a\<in>set authors. str_int (author_id a) = k \<and>
             (map_of fetched (keyf a) = Some v
              \<or> (\<exists>u\<in>set users. v = SentryUser u \<and>
                    (\<exists>ue\<in>set user_emails. lower (ue_email ue) = lower (author_email a) \<and>
                                         str_int (ue_user_id ue) = su_id u))
              \<or> (v = AuthorDict (author_name a) (author_email a) \<and>
                  \<not> (\<exists>ue\<in>set user_emails. lower (ue_email ue) = lower (author_email a) \<and>
                                         str_int (ue_user_id ue) \<in> su_id ` set users)))"
    if kv: "map_of results k = Some v" for k v
  proof (cases "map_of r1 k = Some v")
    case True
    with first show ?thesis by blast
  next
    case not_cached: False
    with kv res have ne: "missed \<noteq> []" by (auto split: if_splits)
    obtain r2 tc where f2: "fold (resolve_missed ext organization_id ube) missed (r1, []) = (r2, tc)"
      by (cases "fold (resolve_missed ext organization_id ube) missed (r1, [])")
    with res ne have "results = r2" by simp
    with kv resolve_missed_fold [OF f2] not_cached
    obtain a where a: "a \<in> set missed" "str_int (author_id a) = k"
        "v = (case map_of ube (lower (author_email a)) of
                   Some u \<Rightarrow> SentryUser u
                 | None \<Rightarrow> AuthorDict (author_name a) (author_email a))"
      by blast
    from a(1) have "a \<in> set authors" by (simp add: missed_def)
    with a(2) ube_value [OF a(3) [symmetric]] show ?thesis by blast
  qed
  have dist: "distinct (map fst results)"
    unfolding results_def by (rule get_users_for_authors_distinct)
  show ?thesis
    unfolding Let_def
    using keys dist vals
    unfolding results_def users_def user_emails_def missed_def fetched_def keyf_def
    by blast
qed

lemma get_users_for_authors_log:
  "\<exists>l2 m n. snd (get_users_for_authors ext organization_id authors user) =
      CacheGetMany (map (user_to_author_cache_key (md5_hex ext) organization_id) authors) # l2 @
        [MetricsIncr ''sentry.release.get_users_for_authors.missed'' m,
         MetricsIncr ''sentry.tasks.process_suspect_commits.total'' n]
    \<and> (l2 = [] \<or> (\<exists>e i u t. l2 = [UserEmailQuery e, UserQuery i organization_id,
                                    SerializeUsers u user, CacheSetMany t]))"
  unfolding get_users_for_authors_def Let_def
  by (auto split: prod.splits)

text \<open>
  C9. Whatever the number of authors, a run reads the cache once and makes at most one
  \<open>UserEmail\<close> query, one \<open>User\<close> query and one cache write; with the serializer call
  and the two metrics it makes at most seven calls.
\<close>

theorem get_users_for_authors_constant_lookups:
  "count_calls is_cache_get_many (snd (get_users_for_authors ext organization_id authors user)) = 1
   \<and> count_calls is_user_email_query (snd (get_users_for_authors ext organization_id authors user)) \<le> 1
   \<and> count_calls is_user_query (snd (get_users_for_authors ext organization_id authors user)) \<le> 1
   \<and> count_calls is_cache_set_many (snd (get_users_for_authors ext organization_id authors user)) \<le> 1
   \<and> length (snd (get_users_for_authors ext organization_id authors user)) \<le> 7"
proof -
  obtain l2 m n where
    log: "snd (get_users_for_authors ext organization_id authors user) =
      CacheGetMany (map (user_to_author_cache_key (md5_hex ext) organization_id) authors) # l2 @
        [MetricsIncr ''sentry.release.get_users_for_authors.missed'' m,
         MetricsIncr ''sentry.tasks.process_suspect_commits.total'' n]"
    and l2: "l2 = [] \<or> (\<exists>e i u t. l2 = [UserEmailQuery e, UserQuery i organization_id,
                                    SerializeUsers u user, CacheSetMany t])"
    using get_users_for_authors_log by blast
  from l2 show ?thesis
    unfolding log count_calls_def by auto
qed

subsection \<open>First and last sightings\<close>

lemma note_tag_value_pair:
  "note_tag_value tv (fs, ls) =
     (AList.update (tv_value tv)
        (case map_of fs (tv_value tv) of Some f \<Rightarrow> min (tv_first_seen tv) f | None \<Rightarrow> tv_first_seen tv) fs,
      AList.update (tv_value tv)
        (case map_of ls (tv_value tv) of Some l \<Rightarrow> max (tv_last_seen tv) l | None \<Rightarrow> tv_last_seen tv) ls)"
  by (simp add: note_tag_value_def Let_def)

lemma Min_insert_min:
  "finite S \<Longrightarrow> Min (insert (min (a::int) b) S) = Min (insert b (insert a S))"
  by (cases "S = {}") (simp_all add: min.assoc min.commute)

lemma Max_insert_max:
  "finite S \<Longrightarrow> Max (insert (max (a::int) b) S) = Max (insert b (insert a S))"
  by (cases "S = {}") (simp_all add: max.assoc max.commute)

lemma seen_of_step_Min:
  "seen_of (Some (case old of Some f \<Rightarrow> min t f | None \<Rightarrow> t)) xs Min = seen_of old (t # xs) Min"
  by (cases old) (simp_all add: seen_of_def Min_insert_min)

lemma seen_of_step_Max:
  "seen_of (Some (case old of Some l \<Rightarrow> max t l | None \<Rightarrow> t)) xs Max = seen_of old (t # xs) Max"
  by (cases old) (simp_all add: seen_of_def Max_insert_max)

lemma note_tag_value_fold:
  "fold note_tag_value tvs (fs, ls) = (fs', ls') \<Longrightarrow>
     map_of fs' v = seen_of (map_of fs v) (map tv_first_seen (filter (\<lambda>tv. tv_value tv = v) tvs)) Min
   \<and> map_of ls' v = seen_of (map_of ls v) (map tv_last_seen (filter (\<lambda>tv. tv_value tv = v) tvs)) Max"
proof (induction tvs arbitrary: fs ls)
  case Nil
  then show ?case by (simp add: seen_of_def split: option.splits)
next
  case (Cons tv tvs)
  from Cons.prems have "fold note_tag_value tvs (note_tag_value tv (fs, ls)) = (fs', ls')"
    by simp
  then have "fold note_tag_value tvs
     (AList.update (tv_value tv)
        (case map_of fs (tv_value tv) of Some f \<Rightarrow> min (tv_first_seen tv) f | None \<Rightarrow> tv_first_seen tv) fs,
      AList.update (tv_value tv)
        (case map_of ls (tv_value tv) of Some l \<Rightarrow> max (tv_last_seen tv) l | None \<Rightarrow> tv_last_seen tv) ls)
     = (fs', ls')"
    by (simp only: note_tag_value_pair)
  note ih = Cons.IH [OF this]
  show ?case
  proof (cases "tv_value tv = v")
    case True
    with ih show ?thesis
      by (simp add: AList.update_conv' seen_of_step_Min seen_of_step_Max)
  next
    case False
    with ih show ?thesis
      by (simp add: AList.update_conv')
  qed
qed


lemma seen_of_Nil_start:
  "seen_of None (map f (filter p xs)) pick =
     (if {x \<in> set xs. p x} = {} then None else Some (pick (f ` {x \<in> set xs. p x})))"
proof -
  have "set (filter p xs) = {x \<in> set xs. p x}" by simp
  moreover have "filter p xs = [] \<longleftrightarrow> {x \<in> set xs. p x} = {}"
    by (auto simp: filter_empty_conv)
  ultimately show ?thesis
    by (simp add: seen_of_def del: set_filter)
qed

lemma note_release_project_env_pair:
  "note_release_project_env e (fs, ls) =
     ((if (case map_of fs (rpe_release_version e) of None \<Rightarrow> True | Some f \<Rightarrow> f > rpe_first_seen e)
       then AList.update (rpe_release_version e) (rpe_first_seen e) fs else fs),
      (if (case map_of ls (rpe_release_version e) of None \<Rightarrow> True | Some l \<Rightarrow> l < rpe_last_seen e)
       then AList.update (rpe_release_version e) (rpe_last_seen e) ls else ls))"
  by (simp add: note_release_project_env_def Let_def)

lemma keep_smaller:
  "map_of (if (case map_of fs v of None \<Rightarrow> True | Some f \<Rightarrow> f > t)
           then AList.update v t fs else fs) w =
     (if w = v then Some (case map_of fs v of Some f \<Rightarrow> min t f | None \<Rightarrow> (t::int)) else map_of fs w)"
  by (cases "map_of fs v") (auto simp: AList.update_conv' min_def)

lemma keep_larger:
  "map_of (if (case map_of ls v of None \<Rightarrow> True | Some l \<Rightarrow> l < t)
           then AList.update v t ls else ls) w =
     (if w = v then Some (case map_of ls v of Some l \<Rightarrow> max t l | None \<Rightarrow> (t::int)) else map_of ls w)"
  by (cases "map_of ls v") (auto simp: AList.update_conv' max_def)

lemma note_release_project_env_fold:
  "fold note_release_project_env rows (fs, ls) = (fs', ls') \<Longrightarrow>
     map_of fs' v =
       seen_of (map_of fs v) (map rpe_first_seen (filter (\<lambda>e. rpe_release_version e = v) rows)) Min
   \<and> map_of ls' v =
       seen_of (map_of ls v) (map rpe_last_seen (filter (\<lambda>e. rpe_release_version e = v) rows)) Max"
proof (induction rows arbitrary: fs ls)
  case Nil
  then show ?case by (simp add: seen_of_def split: option.splits)
next
  case (Cons e rows)
  from Cons.prems have
    "fold note_release_project_env rows (note_release_project_env e (fs, ls)) = (fs', ls')"
    by simp
  then have "fold note_release_project_env rows
     ((if (case map_of fs (rpe_release_version e) of None \<Rightarrow> True | Some f \<Rightarrow> f > rpe_first_seen e)
       then AList.update (rpe_release_version e) (rpe_first_seen e) fs else fs),
      (if (case map_of ls (rpe_release_version e) of None \<Rightarrow> True | Some l \<Rightarrow> l < rpe_last_seen e)
       then AList.update (rpe_release_version e) (rpe_last_seen e) ls else ls)) = (fs', ls')"
    by (simp only: note_release_project_env_pair)
  note ih = Cons.IH [OF this]
  show ?case
  proof (cases "rpe_release_version e = v")
    case True
    with ih show ?thesis
      by (simp only: keep_smaller keep_larger seen_of_step_Min seen_of_step_Max
            filter.simps list.map if_True simp_thms)
  next
    case False
    then have "v \<noteq> rpe_release_version e" by blast
    with False ih show ?thesis
      by (simp only: keep_smaller keep_larger filter.simps if_False simp_thms)
  qed
qed

text \<open>
  C1. Without environments, \<open>first_seen\<close> maps a tag value \<open>v\<close> to the least
  \<open>first_seen\<close>, and \<open>last_seen\<close> maps it to the greatest \<open>last_seen\<close>, of the tag values
  returned with value \<open>v\<close>, and has no entry when there is none. With environments, they
  map a release version to the least \<open>first_seen\<close> and the greatest \<open>last_seen\<close> of the
  \<open>ReleaseProjectEnvironment\<close> rows returned for that version.
\<close>

theorem release_seen_is_min_max:
  "(let tag_values =
          get_release_tags ext
            (case project of
               Some p \<Rightarrow> [project_id_of p]
             | None \<Rightarrow> fst (fst (get_project_id_list ext item_list)))
            (map rel_version item_list);
        first_seen = fst (fst (get_release_data_no_environment ext project item_list));
        last_seen = fst (snd (fst (get_release_data_no_environment ext project item_list)));
        hits = {tv \<in> set tag_values. tv_value tv = v}
    in map_of first_seen v = (if hits = {} then None else Some (Min (tv_first_seen ` hits)))
     \<and> map_of last_seen v = (if hits = {} then None else Some (Max (tv_last_seen ` hits))))
   \<and>
   (let rows = release_project_envs ext (map rel_id item_list) environments
                 (map_option project_id_of project);
        first_seen = fst (fst (get_release_data_with_environments ext project item_list environments));
        last_seen = fst (snd (fst (get_release_data_with_environments ext project item_list environments)));
        hits = {e \<in> set rows. rpe_release_version e = v}
    in map_of first_seen v = (if hits = {} then None else Some (Min (rpe_first_seen ` hits)))
     \<and> map_of last_seen v = (if hits = {} then None else Some (Max (rpe_last_seen ` hits))))"
proof -
  define tag_values where "tag_values =
          get_release_tags ext
            (case project of
               Some p \<Rightarrow> [project_id_of p]
             | None \<Rightarrow> fst (fst (get_project_id_list ext item_list)))
            (map rel_version item_list)"
  define rows where "rows = release_project_envs ext (map rel_id item_list) environments
                 (map_option project_id_of project)"
  obtain fs ls where tv: "fold note_tag_value tag_values ([], []) = (fs, ls)"
    by (cases "fold note_tag_value tag_values ([], [])")
  obtain fs2 ls2 where rw: "fold note_release_project_env rows ([], []) = (fs2, ls2)"
    by (cases "fold note_release_project_env rows ([], [])")
  have a: "fst (fst (get_release_data_no_environment ext project item_list)) = fs"
    and b: "fst (snd (fst (get_release_data_no_environment ext project item_list))) = ls"
    using tv unfolding get_release_data_no_environment_def tag_values_def Let_def
    by (auto split: prod.splits option.splits)
  have c: "fst (fst (get_release_data_with_environments ext project item_list environments)) = fs2"
    and d: "fst (snd (fst (get_release_data_with_environments ext project item_list environments))) = ls2"
    using rw unfolding get_release_data_with_environments_def rows_def Let_def
    by (auto split: prod.splits)
  show ?thesis
    unfolding Let_def a b c d tag_values_def [symmetric] rows_def [symmetric]
    using note_tag_value_fold [OF tv, of v] note_release_project_env_fold [OF rw, of v]
    by (simp add: seen_of_Nil_start)
qed

subsection \<open>Commit metadata\<close>

lemma item_authors_of_empty: "item_authors_of [] item = []"
proof -
  have "fold (add_item_author []) xs ([], {}) = ([], {})" for xs
    by (induction xs) (simp_all add: add_item_author_def)
  then show ?thesis by (simp add: item_authors_of_def)
qed

lemma fold_update_lookup:
  "item \<in> set items \<Longrightarrow>
     \<exists>item'\<in>set items. key item' = key item \<and>
        map_of (fold (\<lambda>i r. AList.update (key i) (f i) r) items r0) (key item) = Some (f item')"
proof (induction items arbitrary: r0 rule: rev_induct)
  case Nil
  then show ?case by simp
next
  case (snoc x xs)
  show ?case
  proof (cases "key x = key item")
    case True
    then show ?thesis by (auto simp: AList.update_conv')
  next
    case False
    with snoc.prems have "item \<in> set xs" by auto
    from snoc.IH [OF this, of r0] False show ?thesis
      by (auto simp: AList.update_conv')
  qed
qed

lemma remdups_two_distinct:
  assumes "a \<in> set xs" "b \<in> set xs" "a \<noteq> b"
  shows "\<forall>x. remdups xs \<noteq> [x]"
proof
  fix x
  show "remdups xs \<noteq> [x]"
  proof
    assume "remdups xs = [x]"
    then have "set xs = {x}" by (metis set_remdups list.simps(15) empty_set)
    with assms show False by auto
  qed
qed

lemma get_commit_metadata_result:
  "fst (get_commit_metadata ext item_list user) =
     (let author_ids = (\<Union>obj\<in>set item_list. set (rel_authors obj));
          author_list = (if author_ids \<noteq> {} then commit_authors_in ext author_ids else []);
          users_by_author =
            (if author_list \<noteq> []
             then (case remdups (map rel_organization_id item_list) of
                     [org_id] \<Rightarrow> fst (get_users_for_authors ext org_id author_list user)
                   | _ \<Rightarrow> [])
             else []);
          commit_ids = truthy_ids (map rel_last_commit_id item_list);
          commits =
            (if commit_ids \<noteq> {}
             then dict_of_pairs (zip (map commit_id (commits_in ext commit_ids))
                                     (serialize_commits ext (commits_in ext commit_ids) user))
             else [])
      in fold (\<lambda>item r. AList.update (release_key item)
                    \<lparr>cm_authors = item_authors_of users_by_author item,
                     cm_last_commit = dict_get_opt commits (rel_last_commit_id item)\<rparr> r)
                 item_list [])"
  unfolding get_commit_metadata_def Let_def
  by (auto split: prod.splits list.splits)

text \<open>
  C7. When the releases of \<open>item_list\<close> belong to more than one organization, no author is
  resolved to a user: the commit metadata of every release of the list has the empty list
  under \<open>authors\<close>.
\<close>

theorem mixed_organizations_resolve_no_authors:
  assumes "1 < card (rel_organization_id ` set item_list)"
    and "item \<in> set item_list"
  shows "\<exists>md. map_of (fst (get_commit_metadata ext item_list user)) (release_key item) = Some md
            \<and> cm_authors md = []"
proof -
  have "\<not> card (rel_organization_id ` set item_list) \<le> Suc 0"
    using assms(1) by simp
  then have "\<not> (\<forall>x\<in>rel_organization_id ` set item_list.
                \<forall>y\<in>rel_organization_id ` set item_list. x = y)"
    by (simp add: card_le_Suc0_iff_eq)
  then obtain a b where ab: "a \<in> set item_list" "b \<in> set item_list"
      "rel_organization_id a \<noteq> rel_organization_id b"
    by auto
  have "\<forall>x. remdups (map rel_organization_id item_list) \<noteq> [x]"
    using ab by (intro remdups_two_distinct [of "rel_organization_id a" _ "rel_organization_id b"]) auto
  then have none: "(case remdups (map rel_organization_id item_list) of
                     [org_id] \<Rightarrow> fst (get_users_for_authors ext org_id author_list user)
                   | _ \<Rightarrow> []) = []" for author_list
    by (auto split: list.splits)
  define commits where "commits =
            (if truthy_ids (map rel_last_commit_id item_list) \<noteq> {}
             then dict_of_pairs (zip (map commit_id (commits_in ext (truthy_ids (map rel_last_commit_id item_list))))
                                     (serialize_commits ext (commits_in ext (truthy_ids (map rel_last_commit_id item_list))) user))
             else [])"
  have res: "fst (get_commit_metadata ext item_list user) =
      fold (\<lambda>item r. AList.update (release_key item)
                    \<lparr>cm_authors = item_authors_of [] item,
                     cm_last_commit = dict_get_opt commits (rel_last_commit_id item)\<rparr> r)
                 item_list []"
    unfolding get_commit_metadata_result Let_def none commits_def by simp
  from fold_update_lookup [OF assms(2), of release_key
      "\<lambda>item. \<lparr>cm_authors = item_authors_of [] item,
                     cm_last_commit = dict_get_opt commits (rel_last_commit_id item)\<rparr>" "[]"]
  show ?thesis
    unfolding res by (auto simp: item_authors_of_empty)
qed

subsection \<open>\<open>get_attrs\<close>\<close>

lemma get_attrs_raises:
  "truthy (kw_with_health_data kwargs) \<and> truthy (kw_no_snuba kwargs) \<Longrightarrow>
     get_attrs ext item_list user kwargs = (Inl (TypeError ''health data requires snuba''), [])"
  by (simp add: get_attrs_def Let_def)

lemma get_attrs_shape:
  "\<not> (truthy (kw_with_health_data kwargs) \<and> truthy (kw_no_snuba kwargs)) \<Longrightarrow>
     \<exists>owners release_projects first_seen last_seen.
       fst (get_attrs ext item_list user kwargs) =
         attrs_loop
           (item_attrs owners release_projects
              (snd (snd (fst (get_release_data ext (kw_project kwargs) item_list
                                (effective_environments kwargs)))))
              first_seen last_seen
              (fst (get_commit_metadata ext item_list user))
              (fst (get_deploy_metadata ext item_list user)))
           item_list []"
  unfolding get_attrs_def Let_def
  by (auto split: prod.splits)


lemma sum_values_result:
  "sum_values acc vs = Inr n \<Longrightarrow> \<exists>ns. vs = map Some ns \<and> n = acc + sum_list ns"
proof (induction acc vs rule: sum_values.induct)
  case (1 acc)
  then show ?case by simp
next
  case (2 acc vs)
  then show ?case by simp
next
  case (3 acc v vs)
  then obtain ns where "vs = map Some ns" "n = acc + v + sum_list ns" by auto
  then have "Some v # vs = map Some (v # ns) \<and> n = acc + sum_list (v # ns)" by simp
  then show ?case by (rule exI [of _ "v # ns"])
qed



lemma attrs_loop_values:
  "attrs_loop f items r = Inr result \<Longrightarrow> map_of result k = Some p \<Longrightarrow>
     map_of r k = Some p \<or> (\<exists>item\<in>set items. release_key item = k \<and> f item = Inr p)"
proof (induction f items r rule: attrs_loop.induct)
  case (1 f result)
  then show ?case by simp
next
  case (2 f item items r)
  then obtain p0 where p0: "f item = Inr p0"
    and rest: "attrs_loop f items (AList.update (release_key item) p0 r) = Inr result"
    by (auto split: sum.splits)
  from "2.IH" [OF p0 rest "2.prems"(2)] p0 show ?case
    by (auto simp: AList.update_conv' split: if_splits)
qed

lemma attrs_loop_keys:
  "attrs_loop f items r = Inr result \<Longrightarrow> fst ` set result = fst ` set r \<union> release_key ` set items"
proof (induction f items r rule: attrs_loop.induct)
  case (1 f result)
  then show ?case by simp
next
  case (2 f item items r)
  then obtain p0 where p0: "f item = Inr p0"
    and rest: "attrs_loop f items (AList.update (release_key item) p0 r) = Inr result"
    by (auto split: sum.splits)
  from "2.IH" [OF p0 rest] show ?case
    by (auto simp: AList.dom_update)
qed

lemma attrs_loop_lookup:
  assumes "attrs_loop f items [] = Inr result" "item \<in> set items"
  shows "\<exists>p. map_of result (release_key item) = Some p \<and>
           (\<exists>item'\<in>set items. release_key item' = release_key item \<and> f item' = Inr p)"
proof -
  from attrs_loop_keys [OF assms(1)] assms(2) have "release_key item \<in> fst ` set result"
    by auto
  then obtain p where p: "map_of result (release_key item) = Some p"
    by (metis map_of_eq_None_iff not_Some_eq)
  from attrs_loop_values [OF assms(1) p] p show ?thesis by auto
qed

lemma item_attrs_projects_new_groups:
  assumes "item_attrs owners rp counts fs ls md dd item = Inr p"
  shows "(case rel_for_project_id item of
            Some pid \<Rightarrow>
              (\<exists>ps. a_projects p = Some ps \<and> (\<forall>x\<in>set ps. pa_id x = pid))
              \<and> a_new_groups p =
                  Some (case map_of (case map_of counts (rel_id item) of None \<Rightarrow> [] | Some d \<Rightarrow> d) pid of
                          Some (Some n) \<Rightarrow> n | _ \<Rightarrow> 0)
          | None \<Rightarrow>
              (\<exists>ns. map snd (case map_of counts (rel_id item) of None \<Rightarrow> [] | Some d \<Rightarrow> d) = map Some ns
                    \<and> a_new_groups p = Some (sum_list ns)))"
proof (cases "rel_for_project_id item")
  case None
  with assms obtain n where
    n: "sum_values 0 (map snd (case map_of counts (rel_id item) of None \<Rightarrow> [] | Some d \<Rightarrow> d)) = Inr n"
    and "a_new_groups p = Some n"
    by (auto simp: item_attrs_def release_new_groups_of_def Let_def split: sum.splits option.splits)
  with sum_values_result [OF n] None show ?thesis by auto
next
  case (Some pid)
  with assms show ?thesis
    by (auto simp: item_attrs_def release_new_groups_of_def Let_def split: sum.splits option.splits)
qed


text \<open>
  C6. In a result of \<open>get_attrs\<close>, an item specialized for a project lists only projects
  with that id, and its \<open>new_groups\<close> is the issue count recorded for that project under
  the release (0 when there is none, or the count is null); an item that is not
  specialized has the sum of the release's per-project counts as \<open>new_groups\<close>.
\<close>

theorem get_attrs_projects_and_new_groups:
  assumes "fst (get_attrs ext item_list user kwargs) = Inr result"
    and "item \<in> set item_list"
  shows "\<exists>p. map_of result (release_key item) = Some p \<and>
    (let issue_counts_by_release =
           snd (snd (fst (get_release_data ext (kw_project kwargs) item_list
                            (effective_environments kwargs))));
         counts = (case map_of issue_counts_by_release (rel_id item) of None \<Rightarrow> [] | Some d \<Rightarrow> d)
     in case rel_for_project_id item of
          Some pid \<Rightarrow>
            (\<exists>ps. a_projects p = Some ps \<and> (\<forall>x\<in>set ps. pa_id x = pid))
            \<and> a_new_groups p = Some (case map_of counts pid of Some (Some n) \<Rightarrow> n | _ \<Rightarrow> 0)
        | None \<Rightarrow>
            (\<exists>ns. map snd counts = map Some ns \<and> a_new_groups p = Some (sum_list ns)))"
proof -
  have nv: "\<not> (truthy (kw_with_health_data kwargs) \<and> truthy (kw_no_snuba kwargs))"
    using assms(1) get_attrs_raises [of kwargs ext item_list user] by auto
  from get_attrs_shape [OF nv, of ext item_list user]
  obtain owners rp fs ls where shape:
    "fst (get_attrs ext item_list user kwargs) =
       attrs_loop
           (item_attrs owners rp
              (snd (snd (fst (get_release_data ext (kw_project kwargs) item_list
                                (effective_environments kwargs)))))
              fs ls
              (fst (get_commit_metadata ext item_list user))
              (fst (get_deploy_metadata ext item_list user)))
           item_list []"
    by blast
  with assms(1) have loop: "attrs_loop
           (item_attrs owners rp
              (snd (snd (fst (get_release_data ext (kw_project kwargs) item_list
                                (effective_environments kwargs)))))
              fs ls
              (fst (get_commit_metadata ext item_list user))
              (fst (get_deploy_metadata ext item_list user)))
           item_list [] = Inr result"
    by simp
  from attrs_loop_lookup [OF loop assms(2)]
  obtain p item' where p: "map_of result (release_key item) = Some p"
    and key: "release_key item' = release_key item"
    and ia: "item_attrs owners rp
              (snd (snd (fst (get_release_data ext (kw_project kwargs) item_list
                                (effective_environments kwargs)))))
              fs ls
              (fst (get_commit_metadata ext item_list user))
              (fst (get_deploy_metadata ext item_list user)) item' = Inr p"
    by blast
  from key have same: "rel_id item' = rel_id item" "rel_for_project_id item' = rel_for_project_id item"
    by (simp_all add: release_key_def)
  from item_attrs_projects_new_groups [OF ia] p show ?thesis
    unfolding Let_def same by blast
qed

subsection \<open>Two runs of \<open>get_attrs\<close>\<close>

lemma same_answers_append [simp]:
  "same_answers e1 e2 (xs @ ys) \<longleftrightarrow> same_answers e1 e2 xs \<and> same_answers e1 e2 ys"
  by (simp add: same_answers_def)

lemma same_answers_Cons [simp]:
  "same_answers e1 e2 (c # cs) \<longleftrightarrow> answer e2 c = answer e1 c \<and> same_answers e1 e2 cs"
  by (simp add: same_answers_def)

lemma same_answers_Nil [simp]: "same_answers e1 e2 []"
  by (simp add: same_answers_def)














subsection \<open>\<open>ReleaseSerializer.serialize\<close>\<close>

text \<open>
  C4, as the code has it. On an \<open>attrs\<close> dict that has the keys \<open>new_groups\<close> and \<open>owner\<close>,
  \<open>serialize\<close> returns a dict in which \<open>version\<close> and \<open>shortVersion\<close> are the release's
  version, \<open>ref\<close>, \<open>url\<close>, \<open>dateReleased\<close>, \<open>dateCreated\<close>, \<open>commitCount\<close> and
  \<open>deployCount\<close> are the release's \<open>ref\<close>, \<open>url\<close>, \<open>date_released\<close>, \<open>date_added\<close>,
  \<open>commit_count\<close> and \<open>total_deploys\<close>, \<open>newGroups\<close> is \<open>attrs["new_groups"]\<close>, and
  \<open>versionInfo\<close> is \<open>None\<close> exactly when the release's \<open>version_info\<close> is. On a dict
  without \<open>new_groups\<close>, or with it and without \<open>owner\<close>, it raises \<open>KeyError\<close>.
\<close>

theorem serialize_reshapes_row:
  "(case a_new_groups attrs of
      None \<Rightarrow> ReleaseSerializer_serialize to_string obj attrs = Inl (KeyError ''new_groups'')
    | Some new_groups \<Rightarrow>
        (case a_owner attrs of
           None \<Rightarrow> ReleaseSerializer_serialize to_string obj attrs = Inl (KeyError ''owner'')
         | Some attrs_owner \<Rightarrow>
             (\<exists>d. ReleaseSerializer_serialize to_string obj attrs = Inr d
                \<and> map_of d ''version'' = Some (PStr (rel_version obj))
                \<and> map_of d ''shortVersion'' = Some (PStr (rel_version obj))
                \<and> map_of d ''ref'' = Some (PJson (rel_ref obj))
                \<and> map_of d ''url'' = Some (PJson (rel_url obj))
                \<and> map_of d ''dateReleased'' = Some (PJson (rel_date_released obj))
                \<and> map_of d ''dateCreated'' = Some (PJson (rel_date_added obj))
                \<and> map_of d ''commitCount'' = Some (PJson (rel_commit_count obj))
                \<and> map_of d ''deployCount'' = Some (PJson (rel_total_deploys obj))
                \<and> map_of d ''newGroups'' = Some (PInt new_groups)
                \<and> (map_of d ''versionInfo'' = Some PNone \<longleftrightarrow> rel_version_info obj = None))))"
  by (auto simp: ReleaseSerializer_serialize_def expose_version_info_def Let_def
           split: option.splits)

text \<open>
  The statement for every \<open>attrs\<close> dict fails on the empty dict, where the lookup
  \<open>attrs["new_groups"]\<close> raises.
\<close>

theorem serialize_missing_key_counterexample:
  "ReleaseSerializer_serialize (\<lambda>s. ''open'') example_release
     \<lparr>a_owner = None, a_new_groups = None, a_projects = None, a_first_seen = None,
      a_last_seen = None, a_authors = None, a_last_commit = None, a_last_deploy = None\<rparr>
   = Inl (KeyError ''new_groups'')"
  by (simp add: ReleaseSerializer_serialize_def)

subsection \<open>The worked example, evaluated\<close>

theorem serialize_reshapes_row_witness:
  "\<exists>d. ReleaseSerializer_serialize (\<lambda>s. ''open'') example_release example_attrs = Inr d
      \<and> map_of d ''version'' = Some (PStr ''1.0'')
      \<and> map_of d ''newGroups'' = Some (PInt 4)
      \<and> map_of d ''dateCreated'' = Some (PJson (JDate 5))
      \<and> map_of d ''versionInfo'' = Some PNone"
  using serialize_reshapes_row [where attrs = example_attrs and to_string = "\<lambda>s. ''open''"
      and obj = example_release]
  by (auto simp: example_attrs_def example_release_def)


theorem release_seen_is_min_max_witness:
  "map_of (fst (fst (get_release_data_no_environment example_ext None example_items))) ''1.0'' = Some 10
   \<and> map_of (fst (snd (fst (get_release_data_no_environment example_ext None example_items)))) ''1.0'' = Some 40
   \<and> map_of (fst (fst (get_release_data_no_environment example_ext None example_items))) ''2.0'' = None"
proof -
  have tvs: "get_release_tags example_ext
            (case None of
               Some p \<Rightarrow> [project_id_of p]
             | None \<Rightarrow> fst (fst (get_project_id_list example_ext example_items)))
            (map rel_version example_items) =
       [\<lparr>tv_key = ''sentry:release'', tv_value = ''1.0'', tv_times_seen = 2,
             tv_first_seen = 30, tv_last_seen = 40\<rparr>,
            \<lparr>tv_key = ''sentry:release'', tv_value = ''1.0'', tv_times_seen = 1,
             tv_first_seen = 10, tv_last_seen = 20\<rparr>]"
    by (simp add: example_ext_def)
  have h1: "{tv \<in> set [\<lparr>tv_key = ''sentry:release'', tv_value = ''1.0'', tv_times_seen = 2,
             tv_first_seen = 30, tv_last_seen = 40\<rparr>,
            \<lparr>tv_key = ''sentry:release'', tv_value = ''1.0'', tv_times_seen = 1,
             tv_first_seen = 10, tv_last_seen = 20\<rparr>]. tv_value tv = ''1.0''} =
        {\<lparr>tv_key = ''sentry:release'', tv_value = ''1.0'', tv_times_seen = 2,
             tv_first_seen = (30::int), tv_last_seen = (40::int)\<rparr>,
            \<lparr>tv_key = ''sentry:release'', tv_value = ''1.0'', tv_times_seen = 1,
             tv_first_seen = 10, tv_last_seen = 20\<rparr>}"
    by auto
  have h2: "{tv \<in> set [\<lparr>tv_key = ''sentry:release'', tv_value = ''1.0'', tv_times_seen = 2,
             tv_first_seen = 30, tv_last_seen = 40\<rparr>,
            \<lparr>tv_key = ''sentry:release'', tv_value = ''1.0'', tv_times_seen = 1,
             tv_first_seen = (10::int), tv_last_seen = (20::int)\<rparr>]. tv_value tv = ''2.0''} = {}"
    by auto
  show ?thesis
    using release_seen_is_min_max [where ext = example_ext and project = None
        and item_list = example_items and v = "''1.0''", THEN conjunct1]
      release_seen_is_min_max [where ext = example_ext and project = None
        and item_list = example_items and v = "''2.0''", THEN conjunct1]
    unfolding Let_def tvs h1 h2
    by simp
qed

theorem mixed_organizations_resolve_no_authors_witness:
  "1 < card (rel_organization_id ` set example_mixed_items)
   \<and> example_release \<in> set example_mixed_items
   \<and> (\<exists>md. map_of (fst (get_commit_metadata example_ext example_mixed_items None))
                (release_key example_release) = Some md
            \<and> cm_authors md = [])"
proof -
  have c: "1 < card (rel_organization_id ` set example_mixed_items)"
    by code_simp
  have m: "example_release \<in> set example_mixed_items"
    by (simp add: example_mixed_items_def example_items_def)
  from mixed_organizations_resolve_no_authors [OF c m, of example_ext None] c m
  show ?thesis by blast
qed

theorem get_attrs_projects_and_new_groups_witness:
  "\<exists>result. fst (get_attrs example_ext example_items None example_kwargs) = Inr result
     \<and> example_release \<in> set example_items
     \<and> (\<exists>p. map_of result (release_key example_release) = Some p
            \<and> (\<exists>ps. a_projects p = Some ps \<and> (\<forall>x\<in>set ps. pa_id x = 5))
            \<and> a_new_groups p = Some 4)"
proof -
  have "(case fst (get_attrs example_ext example_items None example_kwargs) of
           Inl _ \<Rightarrow> False | Inr _ \<Rightarrow> True)"
    by code_simp
  then obtain result where ev: "fst (get_attrs example_ext example_items None example_kwargs) = Inr result"
    by (cases "fst (get_attrs example_ext example_items None example_kwargs)") auto
  have m: "example_release \<in> set example_items"
    by (simp add: example_items_def)
  have counts: "snd (snd (fst (get_release_data example_ext (kw_project example_kwargs) example_items
                            (effective_environments example_kwargs)))) =
         [(1, [(5, Some 4), (6, Some 3)]), (2, [(5, Some 2)])]"
    by code_simp
  have f: "rel_for_project_id example_release = Some 5" "rel_id example_release = 1"
    by (simp_all add: example_release_def)
  from get_attrs_projects_and_new_groups [OF ev m]
  have "\<exists>p. map_of result (release_key example_release) = Some p
            \<and> (\<exists>ps. a_projects p = Some ps \<and> (\<forall>x\<in>set ps. pa_id x = 5))
            \<and> a_new_groups p = Some 4"
    unfolding Let_def counts f by simp
  with ev m show ?thesis by blast
qed

theorem get_users_for_authors_result_witness:
  "(let keyf = user_to_author_cache_key (md5_hex example_ext) 1;
        results = fst (get_users_for_authors example_ext 1 example_authors None);
        fetched = cache_get_many example_ext (map keyf example_authors);
        missed = filter (\<lambda>a. map_of fetched (keyf a) = None) example_authors;
        user_emails = user_email_in_iexact example_ext (map author_email missed);
        users = serialize_users example_ext
                  (active_org_users example_ext (ue_user_id ` set user_emails) 1) None
    in fst ` set results = (\<lambda>a. str_int (author_id a)) ` set example_authors
     \<and> map_of results ''2'' = Some (AuthorDict None ''bo@x.io'')
     \<and> (\<exists>a\<in>set example_authors. str_int (author_id a) = ''2'' \<and>
             (map_of fetched (keyf a) = Some (AuthorDict None ''bo@x.io'')
              \<or> (\<exists>u\<in>set users. AuthorDict None ''bo@x.io'' = SentryUser u \<and>
                    (\<exists>ue\<in>set user_emails. lower (ue_email ue) = lower (author_email a) \<and>
                                         str_int (ue_user_id ue) = su_id u))
              \<or> (AuthorDict None ''bo@x.io'' = AuthorDict (author_name a) (author_email a) \<and>
                  \<not> (\<exists>ue\<in>set user_emails. lower (ue_email ue) = lower (author_email a) \<and>
                                         str_int (ue_user_id ue) \<in> su_id ` set users)))))"
proof -
  have ev: "map_of (fst (get_users_for_authors example_ext 1 example_authors None)) ''2''
              = Some (AuthorDict None ''bo@x.io'')"
    by code_simp
  show ?thesis
    using ev get_users_for_authors_result [where ext = example_ext and organization_id = 1
        and authors = example_authors and user = None]
    unfolding Let_def by blast
qed


end
